theory Spec2Isabelle
  imports Complex_Main "HOL-Library.Word"
begin

section \<open>Data model of the compute shaders\<close>

text \<open>
  The WGSL shaders work on \<open>u32\<close> indices, \<open>f32\<close> scalars and \<open>vec2f\<close> pairs.
  Indices are 32-bit words, so \<open>index - 1\<close> and \<open>index + 1\<close> wrap around as they do
  on the GPU. An \<open>f32\<close> is modelled by the real number it stands for: rounding,
  infinities and NaN are outside the embedding.
\<close>

type_synonym u32 = "32 word"

datatype vec2f = vec2 (comp_x: real) (comp_y: real)

definition vadd :: "vec2f \<Rightarrow> vec2f \<Rightarrow> vec2f" where
  "vadd a b = vec2 (comp_x a + comp_x b) (comp_y a + comp_y b)"

definition vsub :: "vec2f \<Rightarrow> vec2f \<Rightarrow> vec2f" where
  "vsub a b = vec2 (comp_x a - comp_x b) (comp_y a - comp_y b)"

definition smul :: "real \<Rightarrow> vec2f \<Rightarrow> vec2f" where
  "smul c a = vec2 (c * comp_x a) (c * comp_y a)"

text \<open>
  \<open>struct Parameters\<close>: \<open>dt\<close>, \<open>xResolution\<close> and \<open>length\<close>; the solvers with a
  potential append the runtime-sized array \<open>potential\<close>. The field \<open>length\<close> is
  named \<open>lengthP\<close> here, \<open>length\<close> being the length of a list.
\<close>

record Parameters =
  dt :: real
  xResolution :: u32
  lengthP :: real

record ParametersV = Parameters +
  potential :: "real list"

text \<open>
  A storage buffer is a list. A load whose index is outside the buffer does not stop the
  invocation: the backend delivers some value of its choice, the parameter \<open>oob\<close>.
  A store outside the buffer is dropped.
\<close>

definition load :: "'a \<Rightarrow> 'a list \<Rightarrow> u32 \<Rightarrow> 'a" where
  "load oob buf i = (if unat i < length buf then buf ! unat i else oob)"

definition store_x :: "vec2f list \<Rightarrow> u32 \<Rightarrow> real \<Rightarrow> vec2f list" where
  "store_x buf i v =
     (if unat i < length buf then buf[unat i := vec2 v (comp_y (buf ! unat i))] else buf)"

definition store_y :: "vec2f list \<Rightarrow> u32 \<Rightarrow> real \<Rightarrow> vec2f list" where
  "store_y buf i v =
     (if unat i < length buf then buf[unat i := vec2 (comp_x (buf ! unat i)) v] else buf)"

definition store :: "vec2f list \<Rightarrow> u32 \<Rightarrow> vec2f \<Rightarrow> vec2f list" where
  "store buf i v = (if unat i < length buf then buf[unat i := v] else buf)"

text \<open>
  \<open>let dx = parameters.length / f32(parameters.xResolution-1);\<close>, the first line of
  every WGSL kernel after its guard.
\<close>

definition dx :: "'a Parameters_scheme \<Rightarrow> real" where
  "dx p = lengthP p / real (unat (xResolution p - 1))"

text \<open>
  The two neighbour indices of every WGSL time-step kernel:
  \<open>min(index+1, parameters.xResolution-1)\<close> and \<open>max(index-1, 0)\<close>, both in \<open>u32\<close>.
\<close>

definition plusDxIndex :: "u32 \<Rightarrow> u32 \<Rightarrow> u32" where
  "plusDxIndex index xRes = min (index + 1) (xRes - 1)"

definition minusDxIndex :: "u32 \<Rightarrow> u32" where
  "minusDxIndex index = max (index - 1) 0"

text \<open>
  \<open>dispatchWorkgroups(count)\<close> on a pipeline of the given workgroup size runs one
  invocation for each global id below \<open>size * count\<close>. The invocations are run in
  increasing order of their id.
\<close>

definition dispatchWorkgroups :: "nat \<Rightarrow> (u32 \<Rightarrow> 's \<Rightarrow> 's) \<Rightarrow> nat \<Rightarrow> 's \<Rightarrow> 's" where
  "dispatchWorkgroups wgsize entry n s =
     fold entry (map of_nat [0..<wgsize * n]) s"

text \<open>\<open>Math.ceil(xResolution / 64)\<close> for a non-negative integer resolution.\<close>

definition workgroupCountX :: "nat \<Rightarrow> nat" where
  "workgroupCountX n = (n + 63) div 64"

section \<open>Two-buffer WebGPU solver (SchrodingerTuned.js)\<close>

text \<open>The kernel \<open>timeStep\<close>: it reads \<open>waveFunction\<close> and writes \<open>updatedWaveFunction\<close>.\<close>

definition timeStep_pingpong ::
  "Parameters \<Rightarrow> vec2f \<Rightarrow> vec2f list \<Rightarrow> u32 \<Rightarrow> vec2f list \<Rightarrow> vec2f list" where
  "timeStep_pingpong p oob waveFunction index updatedWaveFunction =
     (if index \<ge> xResolution p then updatedWaveFunction
      else
        let dx22 = dx p * dx p * 2;
            waveFunctionAtX = load oob waveFunction index;
            waveFunctionAtXPlusDx = load oob waveFunction (plusDxIndex index (xResolution p));
            waveFunctionAtXMinusDx = load oob waveFunction (minusDxIndex index);
            u1 = store_x updatedWaveFunction index
                   (comp_x waveFunctionAtX
                    - ((comp_y waveFunctionAtXPlusDx - 2 * comp_y waveFunctionAtX
                        + comp_y waveFunctionAtXMinusDx) / dx22) * dt p)
        in store_y u1 index
             (comp_y waveFunctionAtX
              + ((comp_x waveFunctionAtXPlusDx - 2 * comp_x waveFunctionAtX
                  + comp_x waveFunctionAtXMinusDx) / dx22) * dt p))"

text \<open>
  The wave-function buffers, \<open>waveFunctionBuffer j\<close> for the field
  \<open>#waveFunctionBuffer\<close>\<open>j\<close>, and the two bind groups built by \<open>init\<close>: binding 0
  is the buffer the kernel reads, binding 1 the buffer it writes.
\<close>

datatype buffer = WaveFunctionBuffer0 | WaveFunctionBuffer1 | WaveFunctionBuffer2

definition waveFunctionBuffer :: "nat \<Rightarrow> buffer" where
  "waveFunctionBuffer j =
     (if j = 0 then WaveFunctionBuffer0 else if j = 1 then WaveFunctionBuffer1
      else WaveFunctionBuffer2)"

record bindGroup2 =
  binding0 :: buffer
  binding1 :: buffer

definition waveFunctionBindGroup_pingpong :: "nat \<Rightarrow> bindGroup2" where
  "waveFunctionBindGroup_pingpong j =
     (if j = 0 then \<lparr>binding0 = WaveFunctionBuffer0, binding1 = WaveFunctionBuffer1\<rparr>
      else \<lparr>binding0 = WaveFunctionBuffer1, binding1 = WaveFunctionBuffer0\<rparr>)"

text \<open>
  The host object. \<open>step\<close> records one compute pass, a list of dispatches with the bind
  group set for each, and submits it to the queue; \<open>submitted\<close> is the queue so far.
\<close>

record 'g dispatch =
  bindGroup :: 'g
  workgroups :: nat

record Schrodinger_pingpong =
  pp_xResolution :: nat
  pp_running :: bool
  pp_submitted :: "bindGroup2 dispatch list list"

function step_pingpong_loop ::
  "Schrodinger_pingpong \<Rightarrow> int \<Rightarrow> nat \<Rightarrow> bindGroup2 dispatch list \<Rightarrow> bindGroup2 dispatch list"
where
  "step_pingpong_loop s count i pass =
     (if int i < count \<and> pp_running s
      then step_pingpong_loop s count (i + 1)
             (pass @ [\<lparr>bindGroup = waveFunctionBindGroup_pingpong (i mod 2),
                       workgroups = workgroupCountX (pp_xResolution s)\<rparr>])
      else pass)"
  by pat_completeness auto
termination
  by (relation "measure (\<lambda>(s, count, i, pass). nat (count - int i))") auto

declare step_pingpong_loop.simps [simp del]

definition Schrodinger_pingpong_new :: "nat \<Rightarrow> Schrodinger_pingpong" where
  "Schrodinger_pingpong_new xRes =
     \<lparr>pp_xResolution = xRes, pp_running = False, pp_submitted = []\<rparr>"

definition step_pingpong :: "int \<Rightarrow> Schrodinger_pingpong \<Rightarrow> Schrodinger_pingpong" where
  "step_pingpong count s =
     (let s1 = s\<lparr>pp_running := True\<rparr>;
          pass = step_pingpong_loop s1 count 0 []
      in s1\<lparr>pp_submitted := pp_submitted s1 @ [pass]\<rparr>)"

section \<open>Three-buffer leapfrog WebGPU solver\<close>

text \<open>
  Device memory holds the wave-function buffers by identity, so that a bind group can
  name the same buffer under different bindings. The three bind groups built by \<open>init\<close>
  rotate the buffers: binding 0 is \<open>oldWaveFunction\<close>, binding 1 \<open>waveFunction\<close>,
  binding 2 \<open>updatedWaveFunction\<close>.
\<close>

type_synonym memory = "buffer \<Rightarrow> vec2f list"

record bindGroup3 = bindGroup2 +
  binding2 :: buffer

definition waveFunctionBindGroup :: "nat \<Rightarrow> bindGroup3" where
  "waveFunctionBindGroup j =
     (if j = 0 then
        \<lparr>binding0 = WaveFunctionBuffer0, binding1 = WaveFunctionBuffer1,
         binding2 = WaveFunctionBuffer2\<rparr>
      else if j = 1 then
        \<lparr>binding0 = WaveFunctionBuffer1, binding1 = WaveFunctionBuffer2,
         binding2 = WaveFunctionBuffer0\<rparr>
      else
        \<lparr>binding0 = WaveFunctionBuffer2, binding1 = WaveFunctionBuffer0,
         binding2 = WaveFunctionBuffer1\<rparr>)"

text \<open>
  The kernel \<open>timeStep\<close> of the leapfrog solver. Every load precedes the two component
  stores into \<open>updatedWaveFunction[index]\<close>. \<open>oobV\<close> is the value an invalid reference
  into \<open>parameters.potential\<close> delivers.
\<close>

definition timeStep ::
  "ParametersV \<Rightarrow> vec2f \<Rightarrow> real \<Rightarrow> bindGroup3 \<Rightarrow> u32 \<Rightarrow> memory \<Rightarrow> memory" where
  "timeStep p oob oobV g index mem =
     (if index \<ge> xResolution p then mem
      else
        let oldWaveFunction = mem (binding0 g);
            waveFunction = mem (binding1 g);
            dx2 = dx p * dx p;
            twoV = 2 * load oobV (potential p) index;
            oldWaveFunctionAtX = load oob oldWaveFunction index;
            waveFunctionAtX = load oob waveFunction index;
            waveFunctionAtXPlusDx = load oob waveFunction (plusDxIndex index (xResolution p));
            waveFunctionAtXMinusDx = load oob waveFunction (minusDxIndex index);
            mem1 = mem (binding2 g := store_x (mem (binding2 g)) index
                     (comp_x oldWaveFunctionAtX
                      - ((comp_y waveFunctionAtXPlusDx - 2 * comp_y waveFunctionAtX
                          + comp_y waveFunctionAtXMinusDx) / dx2
                         - twoV * comp_y waveFunctionAtX) * dt p))
        in mem1 (binding2 g := store_y (mem1 (binding2 g)) index
                     (comp_y oldWaveFunctionAtX
                      + ((comp_x waveFunctionAtXPlusDx - 2 * comp_x waveFunctionAtX
                          + comp_x waveFunctionAtXMinusDx) / dx2
                         - twoV * comp_x waveFunctionAtX) * dt p)))"

subsection \<open>Mur boundary of the leapfrog solver\<close>

text \<open>
  \<open>recomputeBoundary\<close> runs as one workgroup of two invocations, \<open>index\<close> 0 for the left
  edge and 1 for the right edge. \<open>offset = 1 - 2*index\<close> is a \<open>u32\<close>, so it is
  \<open>2^32 - 1\<close> at the right edge, and adding it steps one element back.
\<close>

definition phaseVelocity_of :: "real \<Rightarrow> real" where
  "phaseVelocity_of E = sqrt (0.5 * E)"

definition murCoefficient :: "'a Parameters_scheme \<Rightarrow> real \<Rightarrow> real" where
  "murCoefficient p phaseVelocity =
     (phaseVelocity * dt p - dx p) / (phaseVelocity * dt p + dx p)"

definition recomputeBoundary ::
  "ParametersV \<Rightarrow> vec2f \<Rightarrow> real \<Rightarrow> bindGroup3 \<Rightarrow> u32 \<Rightarrow> memory \<Rightarrow> memory" where
  "recomputeBoundary p oob phaseVelocity g index mem =
     (let waveFunction = mem (binding1 g);
          updatedWaveFunction = mem (binding2 g);
          sotrageBufferIndex = index * (xResolution p - 1);
          offset = 1 - 2 * index
      in mem (binding2 g := store updatedWaveFunction sotrageBufferIndex
                (vadd (load oob waveFunction (sotrageBufferIndex + offset))
                   (smul (murCoefficient p phaseVelocity)
                      (vsub (load oob updatedWaveFunction (sotrageBufferIndex + offset))
                            (load oob waveFunction sotrageBufferIndex))))))"

definition makeComputePass ::
  "ParametersV \<Rightarrow> vec2f \<Rightarrow> real \<Rightarrow> bindGroup3 \<Rightarrow> memory \<Rightarrow> memory" where
  "makeComputePass p oob phaseVelocity g mem =
     dispatchWorkgroups 2 (recomputeBoundary p oob phaseVelocity g) 1 mem"

section \<open>Staggered-time WebGPU solver\<close>

text \<open>
  One bind group holds the two buffers: \<open>waveFunction\<close> with the real part at \<open>t\<close> and
  the imaginary part at \<open>t + dt/2\<close>, and \<open>oldWaveFunction\<close> with the values before the
  last update of each component.
\<close>

record staggered =
  waveFunction :: "vec2f list"
  oldWaveFunction :: "vec2f list"

definition imaginaryPartTimeStep ::
  "ParametersV \<Rightarrow> vec2f \<Rightarrow> real \<Rightarrow> u32 \<Rightarrow> staggered \<Rightarrow> staggered" where
  "imaginaryPartTimeStep p oob oobV index m =
     (if index \<ge> xResolution p then m
      else
        let dx22 = 2 * dx p * dx p;
            V = load oobV (potential p) index;
            waveFunctionAtX = load oob (waveFunction m) index;
            waveFunctionAtXPlusDx =
              load oob (waveFunction m) (plusDxIndex index (xResolution p));
            waveFunctionAtXMinusDx = load oob (waveFunction m) (minusDxIndex index);
            m1 = m\<lparr>oldWaveFunction :=
                     store_y (oldWaveFunction m) index (comp_y waveFunctionAtX)\<rparr>
        in m1\<lparr>waveFunction := store_y (waveFunction m1) index
                 (comp_y waveFunctionAtX
                  + ((comp_x waveFunctionAtXPlusDx - 2 * comp_x waveFunctionAtX
                      + comp_x waveFunctionAtXMinusDx) / dx22
                     - V * comp_x waveFunctionAtX) * dt p)\<rparr>)"

definition realPartTimeStep ::
  "ParametersV \<Rightarrow> vec2f \<Rightarrow> real \<Rightarrow> u32 \<Rightarrow> staggered \<Rightarrow> staggered" where
  "realPartTimeStep p oob oobV index m =
     (if index \<ge> xResolution p then m
      else
        let dx22 = 2 * dx p * dx p;
            V = load oobV (potential p) index;
            waveFunctionAtX = load oob (waveFunction m) index;
            waveFunctionAtXPlusDx =
              load oob (waveFunction m) (plusDxIndex index (xResolution p));
            waveFunctionAtXMinusDx = load oob (waveFunction m) (minusDxIndex index);
            m1 = m\<lparr>oldWaveFunction :=
                     store_x (oldWaveFunction m) index (comp_x waveFunctionAtX)\<rparr>
        in m1\<lparr>waveFunction := store_x (waveFunction m1) index
                 (comp_x waveFunctionAtX
                  - ((comp_y waveFunctionAtXPlusDx - 2 * comp_y waveFunctionAtX
                      + comp_y waveFunctionAtXMinusDx) / dx22
                     - V * comp_y waveFunctionAtX) * dt p)\<rparr>)"

text \<open>
  The two passes of one iteration of \<open>step\<close>, each a dispatch of
  \<open>Math.ceil(xResolution / WORKGROUP_SIZE)\<close> workgroups of \<open>WORKGROUP_SIZE = 64\<close>.
\<close>

definition WORKGROUP_SIZE :: nat where
  "WORKGROUP_SIZE = 64"

definition realPass :: "ParametersV \<Rightarrow> vec2f \<Rightarrow> real \<Rightarrow> staggered \<Rightarrow> staggered" where
  "realPass p oob oobV m =
     dispatchWorkgroups WORKGROUP_SIZE (realPartTimeStep p oob oobV)
       (workgroupCountX (unat (xResolution p))) m"

definition imaginaryPass :: "ParametersV \<Rightarrow> vec2f \<Rightarrow> real \<Rightarrow> staggered \<Rightarrow> staggered" where
  "imaginaryPass p oob oobV m =
     dispatchWorkgroups WORKGROUP_SIZE (imaginaryPartTimeStep p oob oobV)
       (workgroupCountX (unat (xResolution p))) m"

subsection \<open>What the two passes compute\<close>

text \<open>
  The value an invocation of each kernel computes for its point, read from the buffer as
  it is handed to the invocation, and the two buffers once the invocations with an id
  below \<open>k\<close> have run.
\<close>

definition realPartValue :: "ParametersV \<Rightarrow> vec2f \<Rightarrow> real \<Rightarrow> vec2f list \<Rightarrow> u32 \<Rightarrow> real" where
  "realPartValue p oob oobV buf index =
     comp_x (load oob buf index)
     - ((comp_y (load oob buf (plusDxIndex index (xResolution p)))
         - 2 * comp_y (load oob buf index)
         + comp_y (load oob buf (minusDxIndex index))) / (2 * dx p * dx p)
        - load oobV (potential p) index * comp_y (load oob buf index)) * dt p"

definition imaginaryPartValue :: "ParametersV \<Rightarrow> vec2f \<Rightarrow> real \<Rightarrow> vec2f list \<Rightarrow> u32 \<Rightarrow> real" where
  "imaginaryPartValue p oob oobV buf index =
     comp_y (load oob buf index)
     + ((comp_x (load oob buf (plusDxIndex index (xResolution p)))
         - 2 * comp_x (load oob buf index)
         + comp_x (load oob buf (minusDxIndex index))) / (2 * dx p * dx p)
        - load oobV (potential p) index * comp_x (load oob buf index)) * dt p"

definition realPassUpTo ::
  "ParametersV \<Rightarrow> vec2f \<Rightarrow> real \<Rightarrow> staggered \<Rightarrow> nat \<Rightarrow> staggered" where
  "realPassUpTo p oob oobV m k =
     \<lparr>waveFunction =
        map (\<lambda>i. if i < k
                 then vec2 (realPartValue p oob oobV (waveFunction m) (of_nat i))
                           (comp_y (waveFunction m ! i))
                 else waveFunction m ! i) [0..<length (waveFunction m)],
      oldWaveFunction =
        map (\<lambda>i. if i < k
                 then vec2 (comp_x (waveFunction m ! i)) (comp_y (oldWaveFunction m ! i))
                 else oldWaveFunction m ! i) [0..<length (oldWaveFunction m)]\<rparr>"

definition imaginaryPassUpTo ::
  "ParametersV \<Rightarrow> vec2f \<Rightarrow> real \<Rightarrow> staggered \<Rightarrow> nat \<Rightarrow> staggered" where
  "imaginaryPassUpTo p oob oobV m k =
     \<lparr>waveFunction =
        map (\<lambda>i. if i < k
                 then vec2 (comp_x (waveFunction m ! i))
                           (imaginaryPartValue p oob oobV (waveFunction m) (of_nat i))
                 else waveFunction m ! i) [0..<length (waveFunction m)],
      oldWaveFunction =
        map (\<lambda>i. if i < k
                 then vec2 (comp_x (oldWaveFunction m ! i)) (comp_y (waveFunction m ! i))
                 else oldWaveFunction m ! i) [0..<length (oldWaveFunction m)]\<rparr>"

subsection \<open>Mur boundary of the staggered solver\<close>

definition recomputeRealBoundary ::
  "ParametersV \<Rightarrow> vec2f \<Rightarrow> real \<Rightarrow> u32 \<Rightarrow> staggered \<Rightarrow> staggered" where
  "recomputeRealBoundary p oob phaseVelocity index m =
     (let sotrageBufferIndex = index * (xResolution p - 1);
          offset = 1 - 2 * index
      in m\<lparr>waveFunction := store_x (waveFunction m) sotrageBufferIndex
             (comp_x (load oob (oldWaveFunction m) (sotrageBufferIndex + offset))
              + murCoefficient p phaseVelocity
                * (comp_x (load oob (waveFunction m) (sotrageBufferIndex + offset))
                   - comp_x (load oob (oldWaveFunction m) sotrageBufferIndex)))\<rparr>)"

definition recomputeImaginaryBoundary ::
  "ParametersV \<Rightarrow> vec2f \<Rightarrow> real \<Rightarrow> u32 \<Rightarrow> staggered \<Rightarrow> staggered" where
  "recomputeImaginaryBoundary p oob phaseVelocity index m =
     (let sotrageBufferIndex = index * (xResolution p - 1);
          offset = 1 - 2 * index
      in m\<lparr>waveFunction := store_y (waveFunction m) sotrageBufferIndex
             (comp_y (load oob (oldWaveFunction m) (sotrageBufferIndex + offset))
              + murCoefficient p phaseVelocity
                * (comp_y (load oob (waveFunction m) (sotrageBufferIndex + offset))
                   - comp_y (load oob (oldWaveFunction m) sotrageBufferIndex)))\<rparr>)"

definition makeRealComputePass ::
  "ParametersV \<Rightarrow> vec2f \<Rightarrow> real \<Rightarrow> staggered \<Rightarrow> staggered" where
  "makeRealComputePass p oob phaseVelocity m =
     dispatchWorkgroups 2 (recomputeRealBoundary p oob phaseVelocity) 1 m"

definition makeImaginaryComputePass ::
  "ParametersV \<Rightarrow> vec2f \<Rightarrow> real \<Rightarrow> staggered \<Rightarrow> staggered" where
  "makeImaginaryComputePass p oob phaseVelocity m =
     dispatchWorkgroups 2 (recomputeImaginaryBoundary p oob phaseVelocity) 1 m"

section \<open>Wave-packet initializer and free-particle oracle\<close>

text \<open>
  \<open>computePsi\<close> is the same function in \<open>SchrodingerInitializer\<close> and in
  \<open>SchrodingerFreeParticle\<close>. \<open>PI\<close> is the shader's constant, written with its
  digits. WGSL's \<open>pow\<close> is \<open>powr\<close>, defined for a positive base.
\<close>

record WavePacketParameters =
  wp_x0 :: real
  wp_w :: real
  wp_k :: real

definition PI :: real where
  "PI = 3.1415926535897932384626433832795"

definition computePsi ::
  "'a Parameters_scheme \<Rightarrow> WavePacketParameters \<Rightarrow> u32 \<Rightarrow> real \<Rightarrow> vec2f" where
  "computePsi p wavePacketParameters globalID t =
     (let x = real (unat globalID) * lengthP p / real (unat (xResolution p - 1));
          w2 = wp_w wavePacketParameters * wp_w wavePacketParameters;
          p0 = wp_k wavePacketParameters;
          deltaX = x - wp_x0 wavePacketParameters;
          theta = arctan (2 * t / w2) / 2;
          phi = - theta - p0 * p0 * t / 2;
          a = w2 * w2 + 4 * t * t;
          b = (deltaX - p0 * t) * (deltaX - p0 * t);
          c = phi + p0 * deltaX + 2 * t * b / a;
          phase = vec2 (cos c) (sin c);
          magnitude = (2 * w2 / (PI * a)) powr 0.25 * exp (- b * w2 / a)
      in smul magnitude phase)"

text \<open>The two entry points: the initial pair of buffers, and the buffer at a given time.\<close>

definition computeInitialValues ::
  "'a Parameters_scheme \<Rightarrow> WavePacketParameters \<Rightarrow> u32 \<Rightarrow>
   vec2f list \<times> vec2f list \<Rightarrow> vec2f list \<times> vec2f list" where
  "computeInitialValues p wavePacketParameters index bufs =
     (if index \<ge> xResolution p then bufs
      else (store (fst bufs) index (computePsi p wavePacketParameters index 0),
            store (snd bufs) index (computePsi p wavePacketParameters index (dt p))))"

definition computeTimeValues ::
  "'a Parameters_scheme \<Rightarrow> WavePacketParameters \<Rightarrow> real \<Rightarrow> u32 \<Rightarrow>
   vec2f list \<Rightarrow> vec2f list" where
  "computeTimeValues p wavePacketParameters time index timeWaveFunction =
     (if index \<ge> xResolution p then timeWaveFunction
      else store timeWaveFunction index (computePsi p wavePacketParameters index time))"

section \<open>WebGL solvers\<close>

text \<open>
  The fragment shaders take \<open>dt\<close>, \<open>length\<close> and \<open>xResolution\<close> as uniforms, the last
  one a GLSL \<open>int\<close>. A sampler is the function from a texture coordinate to the \<open>rg\<close>
  components of the texel \<open>texture2D\<close> returns there (to its \<open>r\<close> component for the
  potential).
\<close>

record uniforms =
  u_dt :: real
  u_length :: real
  u_xResolution :: int

type_synonym sampler2D = "real \<times> real \<Rightarrow> vec2f"

text \<open>\<open>dx = length/float(xResolution);\<close>, the first statement of each fragment shader.\<close>

definition dx_webgl :: "uniforms \<Rightarrow> real" where
  "dx_webgl u = u_length u / real_of_int (u_xResolution u)"

definition ds_webgl :: "uniforms \<Rightarrow> real \<times> real" where
  "ds_webgl u = (1.2 / real_of_int (u_xResolution u), 0)"

definition mixing :: vec2f where
  "mixing = vec2 (-1) 1"

text \<open>\<open>main\<close> of the two-buffer solver (Schrodinger.js).\<close>

definition main_Schrodinger ::
  "uniforms \<Rightarrow> sampler2D \<Rightarrow> (real \<times> real \<Rightarrow> real) \<Rightarrow> real \<times> real \<Rightarrow> vec2f" where
  "main_Schrodinger u waveFunctionTex potentialTex vTextureCoord =
     (let dxv = dx_webgl u;
          ds = ds_webgl u;
          texel = waveFunctionTex vTextureCoord;
          plus = waveFunctionTex (fst vTextureCoord + fst ds, snd vTextureCoord + snd ds);
          minus = waveFunctionTex (fst vTextureCoord - fst ds, snd vTextureCoord - snd ds)
      in vec2
           (comp_x texel
            + ((comp_y plus - 2 * comp_y texel + comp_y minus) / (2 * (dxv * dxv))
               - potentialTex vTextureCoord * comp_y texel) * comp_x mixing * u_dt u)
           (comp_y texel
            + ((comp_x plus - 2 * comp_x texel + comp_x minus) / (2 * (dxv * dxv))
               - potentialTex vTextureCoord * comp_x texel) * comp_y mixing * u_dt u))"

text \<open>\<open>main\<close> of the three-texture leapfrog solver (SchrodingerMurBoundary.js).\<close>

definition main_SchrodingerMurBoundary ::
  "uniforms \<Rightarrow> sampler2D \<Rightarrow> sampler2D \<Rightarrow> (real \<times> real \<Rightarrow> real) \<Rightarrow> real \<times> real \<Rightarrow> vec2f"
where
  "main_SchrodingerMurBoundary u oldWaveFunctionTex waveFunctionTex potentialTex vTextureCoord =
     (let dxv = dx_webgl u;
          ds = ds_webgl u;
          texel = waveFunctionTex vTextureCoord;
          plus = waveFunctionTex (fst vTextureCoord + fst ds, snd vTextureCoord + snd ds);
          minus = waveFunctionTex (fst vTextureCoord - fst ds, snd vTextureCoord - snd ds)
      in vec2
           (comp_x (oldWaveFunctionTex vTextureCoord)
            + ((comp_y plus - 2 * comp_y texel + comp_y minus) / (dxv * dxv)
               - 2 * potentialTex vTextureCoord * comp_y texel) * comp_x mixing * u_dt u)
           (comp_y (oldWaveFunctionTex vTextureCoord)
            + ((comp_x plus - 2 * comp_x texel + comp_x minus) / (dxv * dxv)
               - 2 * potentialTex vTextureCoord * comp_x texel) * comp_y mixing * u_dt u))"

subsection \<open>Host side of the two-buffer WebGL solver (Schrodinger.js)\<close>

text \<open>
  \<open>textures\<close> and \<open>fbos\<close> are JavaScript arrays: a slot never assigned is
  \<open>undefined\<close>, here \<open>None\<close>. A framebuffer made by \<open>attachFrameBuffer\<close> wraps its
  texture. \<open>gl_draws\<close> lists, for each \<open>drawArrays\<close>, the framebuffer bound as the
  render target and the texture bound as \<open>waveFunction\<close>.
\<close>

datatype 't framebuffer = FrameBuffer 't

record 't Schrodinger_webgl =
  gl_textures :: "nat \<Rightarrow> 't option"
  gl_fbos :: "nat \<Rightarrow> 't framebuffer option"
  gl_step :: nat
  gl_draws :: "('t framebuffer option \<times> 't option) list"

definition Schrodinger_new :: "'t Schrodinger_webgl" where
  "Schrodinger_new =
     \<lparr>gl_textures = (\<lambda>_. None), gl_fbos = (\<lambda>_. None), gl_step = 0, gl_draws = []\<rparr>"

definition setInitialTextures ::
  "'t \<Rightarrow> 't \<Rightarrow> 't Schrodinger_webgl \<Rightarrow> 't Schrodinger_webgl" where
  "setInitialTextures texture0 texture1 s =
     s\<lparr>gl_textures := (gl_textures s)(0 := Some texture0, 1 := Some texture1),
       gl_fbos := (gl_fbos s)(0 := Some (FrameBuffer texture0),
                              1 := Some (FrameBuffer texture1))\<rparr>"

definition timestep :: "'t Schrodinger_webgl \<Rightarrow> 't Schrodinger_webgl" where
  "timestep s =
     (let target = gl_fbos s (gl_step s);
          step1 = (gl_step s + 1) mod 2
      in s\<lparr>gl_step := step1,
            gl_draws := gl_draws s @ [(target, gl_textures s step1)]\<rparr>)"

definition getRenderedTexture :: "'t Schrodinger_webgl \<Rightarrow> 't option" where
  "getRenderedTexture s = gl_textures s ((gl_step s + 1) mod 2)"

definition getSourceFramebuffer :: "'t Schrodinger_webgl \<Rightarrow> 't framebuffer option" where
  "getSourceFramebuffer s = gl_fbos s ((gl_step s + 1) mod 2)"

section \<open>Workgroup-tuned WebGPU solver: capability check\<close>

text \<open>
  \<open>navigator.gpu\<close> may be missing, and \<open>requestAdapter\<close> may resolve to \<open>null\<close>. An
  adapter is known by its limits, looked up by name; a name the adapter does not list gives
  \<open>undefined\<close>, and \<open>undefined >= n\<close> is false.
\<close>

type_synonym GPUSupportedLimits = "string \<rightharpoonup> nat"

record navigator =
  gpu :: bool
  requestAdapter :: "GPUSupportedLimits option"

datatype error =
    WebGPUNotSupported
  | RequestAdapterFailed
  | RequiredLimitUnavailable string nat
  | TypeError

datatype GPUDevice = Device

definition workgroupSizeXLimitName :: string where
  "workgroupSizeXLimitName = ''maxComputeWorkgroupSizeX''"

definition invocationsPerWorkgroupLimitName :: string where
  "invocationsPerWorkgroupLimitName = ''maxComputeInvocationsPerWorkgroup''"

text \<open>An adapter with WebGPU's default limits, 256 for both.\<close>

definition limits256 :: GPUSupportedLimits where
  "limits256 = [workgroupSizeXLimitName \<mapsto> 256, invocationsPerWorkgroupLimitName \<mapsto> 256]"

definition WebGPUCompute_new :: "navigator \<Rightarrow> error + navigator" where
  "WebGPUCompute_new nav = (if \<not> gpu nav then Inl WebGPUNotSupported else Inr nav)"

definition getAdapter :: "navigator \<Rightarrow> error + GPUSupportedLimits" where
  "getAdapter nav =
     (case requestAdapter nav of None \<Rightarrow> Inl RequestAdapterFailed | Some a \<Rightarrow> Inr a)"

definition checkLimit :: "navigator \<Rightarrow> string \<Rightarrow> nat \<Rightarrow> error + bool" where
  "checkLimit nav limitName targetValue =
     (case getAdapter nav of
        Inl e \<Rightarrow> Inl e
      | Inr limits \<Rightarrow>
          Inr (case limits limitName of None \<Rightarrow> False
               | Some limitValue \<Rightarrow> limitValue \<ge> targetValue))"

definition getDevice :: "navigator \<Rightarrow> error + GPUDevice" where
  "getDevice nav = (case getAdapter nav of Inl e \<Rightarrow> Inl e | Inr limits \<Rightarrow> Inr Device)"

text \<open>
  The solver object. The two flags are \<open>undefined\<close> (\<open>None\<close>) until \<open>init\<close> has run.
  \<open>t_submitted\<close> counts the command buffers handed to the queue.
\<close>

record Schrodinger_tuned =
  t_xResolution :: nat
  t_iterations :: nat
  workgroupSizeLimitAvailable :: "bool option"
  invocationLimitAvailable :: "bool option"
  t_device :: "GPUDevice option"
  t_submitted :: nat

definition Schrodinger_tuned_new :: "nat \<Rightarrow> nat \<Rightarrow> Schrodinger_tuned" where
  "Schrodinger_tuned_new xRes iterations =
     \<lparr>t_xResolution = xRes, t_iterations = iterations,
      workgroupSizeLimitAvailable = None, invocationLimitAvailable = None,
      t_device = None, t_submitted = 0\<rparr>"

definition isWorkgroupSizeLimitAvailable :: "Schrodinger_tuned \<Rightarrow> bool option" where
  "isWorkgroupSizeLimitAvailable s = workgroupSizeLimitAvailable s"

definition isInvocationLimitAvailable :: "Schrodinger_tuned \<Rightarrow> bool option" where
  "isInvocationLimitAvailable s = invocationLimitAvailable s"

definition init_tuned :: "navigator \<Rightarrow> Schrodinger_tuned \<Rightarrow> error + Schrodinger_tuned" where
  "init_tuned nav s =
     (case WebGPUCompute_new nav of
        Inl e \<Rightarrow> Inl e
      | Inr webgpuCompute \<Rightarrow>
     (case checkLimit webgpuCompute workgroupSizeXLimitName (t_xResolution s) of
        Inl e \<Rightarrow> Inl e
      | Inr wg \<Rightarrow>
     (case checkLimit webgpuCompute invocationsPerWorkgroupLimitName (t_xResolution s) of
        Inl e \<Rightarrow> Inl e
      | Inr iv \<Rightarrow>
          let s1 = s\<lparr>workgroupSizeLimitAvailable := Some wg,
                     invocationLimitAvailable := Some iv\<rparr>
          in if wg \<and> iv
             then (case getDevice webgpuCompute of
                     Inl e \<Rightarrow> Inl e
                   | Inr d \<Rightarrow> Inr (s1\<lparr>t_device := Some d\<rparr>))
             else Inr s1)))"

text \<open>\<open>!flag\<close> in JavaScript: true for \<open>undefined\<close> and for \<open>false\<close>.\<close>

definition js_not :: "bool option \<Rightarrow> bool" where
  "js_not flag = (case flag of None \<Rightarrow> True | Some b \<Rightarrow> \<not> b)"

definition step_tuned :: "Schrodinger_tuned \<Rightarrow> error + Schrodinger_tuned" where
  "step_tuned s =
     (if js_not (workgroupSizeLimitAvailable s)
      then Inl (RequiredLimitUnavailable workgroupSizeXLimitName (t_xResolution s))
      else if js_not (invocationLimitAvailable s)
      then Inl (RequiredLimitUnavailable invocationsPerWorkgroupLimitName (t_xResolution s))
      else (case t_device s of
              None \<Rightarrow> Inl TypeError
            | Some d \<Rightarrow> Inr (s\<lparr>t_submitted := t_submitted s + 1\<rparr>)))"


section \<open>Diagnostics (DumpSchrodinger.js)\<close>

text \<open>
  The snapshot is a \<open>Float32Array\<close> of interleaved real and imaginary parts. An element
  read outside the array is \<open>undefined\<close>, and every sum or product with it is NaN: the
  result is then \<open>None\<close>. \<open>modulus2 a k\<close> is \<open>a[k]*a[k] + a[k+1]*a[k+1]\<close>.
\<close>

definition element :: "real list \<Rightarrow> int \<Rightarrow> real option" where
  "element a k = (if 0 \<le> k \<and> k < int (length a) then Some (a ! nat k) else None)"

definition modulus2 :: "real list \<Rightarrow> int \<Rightarrow> real option" where
  "modulus2 a k =
     (case (element a k, element a (k + 1)) of
        (Some re, Some im) \<Rightarrow> Some (re * re + im * im)
      | _ \<Rightarrow> None)"

definition accumulate :: "real option \<Rightarrow> real option \<Rightarrow> real option" where
  "accumulate acc v =
     (case (acc, v) of (Some s, Some d) \<Rightarrow> Some (s + d) | _ \<Rightarrow> None)"

function simpson_loop :: "real list \<Rightarrow> real \<Rightarrow> nat \<Rightarrow> real option \<Rightarrow> real option" where
  "simpson_loop wavefunction nPoints i acc =
     (if real i < nPoints - 2
      then simpson_loop wavefunction nPoints (i + 1)
             (accumulate acc
                (map_option (\<lambda>m. real ((i mod 2 + 1) * 2) * m)
                   (modulus2 wavefunction (2 * int i))))
      else acc)"
  by pat_completeness auto
termination
  by (relation "measure (\<lambda>(wavefunction, nPoints, i, acc). nat \<lceil>nPoints - 2\<rceil> - i)")
     (auto, linarith)

declare simpson_loop.simps [simp del]

definition simpson :: "real list \<Rightarrow> real \<Rightarrow> real option" where
  "simpson wavefunction len =
     (let nPoints = real (length wavefunction) / 2;
          acc0 = modulus2 wavefunction 0;
          acc1 = simpson_loop wavefunction nPoints 1 acc0;
          lastPointIndex = \<lfloor>2 * (nPoints - 1)\<rfloor>;
          acc2 = accumulate acc1 (modulus2 wavefunction lastPointIndex)
      in map_option (\<lambda>total. len / (3 * (nPoints - 1)) * total) acc2)"

function integrate_loop ::
  "real list \<Rightarrow> real \<Rightarrow> real \<Rightarrow> nat \<Rightarrow> real option \<Rightarrow> real option" where
  "integrate_loop wavefunction nIntervals dxv i acc =
     (if real i < nIntervals
      then integrate_loop wavefunction nIntervals dxv (i + 1)
             (accumulate acc
                (map_option (\<lambda>m. (m / 2) * dxv)
                   (accumulate (modulus2 wavefunction (2 * int i))
                               (modulus2 wavefunction (2 * int i + 2)))))
      else acc)"
  by pat_completeness auto
termination
  by (relation "measure (\<lambda>(wavefunction, nIntervals, dxv, i, acc). nat \<lceil>nIntervals\<rceil> - i)")
     (auto, linarith)

declare integrate_loop.simps [simp del]

definition integrateWaveFunction :: "real list \<Rightarrow> real \<Rightarrow> real option" where
  "integrateWaveFunction wavefunction len =
     (let nIntervals = real (length wavefunction) / 2 - 1;
          dxv = len / nIntervals
      in integrate_loop wavefunction nIntervals dxv 0 (Some 0))"

subsection \<open>The quadrature rules\<close>

text \<open>
  The two composite rules as the specification states them, for a snapshot of
  \<open>n = length a div 2\<close> samples: \<open>psi2 a i\<close> is the squared modulus of sample \<open>i\<close> and
  \<open>h = len / (n - 1)\<close> the spacing.
\<close>

definition psi2 :: "real list \<Rightarrow> nat \<Rightarrow> real" where
  "psi2 a i = (a ! (2 * i))\<^sup>2 + (a ! (2 * i + 1))\<^sup>2"

definition trapezoid_rule :: "real list \<Rightarrow> real \<Rightarrow> real" where
  "trapezoid_rule a len =
     (let n = length a div 2; h = len / (real n - 1)
      in h * (\<Sum>i = 0..<n - 1. (psi2 a i + psi2 a (i + 1)) / 2))"

definition simpson_rule :: "real list \<Rightarrow> real \<Rightarrow> real" where
  "simpson_rule a len =
     (let n = length a div 2; h = len / (real n - 1)
      in h / 3 * (psi2 a 0
                  + (\<Sum>i = 1..<n - 1. (if odd i then 4 else 2) * psi2 a i)
                  + psi2 a (n - 1)))"

section \<open>Sample inputs\<close>

text \<open>A grid of four points with \<open>dx = 1\<close>, and the uniforms of a WebGL run.\<close>

definition params4 :: Parameters where
  "params4 = \<lparr>dt = 1, xResolution = 4, lengthP = 3\<rparr>"


text \<open>The same grid with a potential, three leapfrog buffers and a staggered pair.\<close>

definition paramsV4 :: ParametersV where
  "paramsV4 = \<lparr>dt = 1, xResolution = 4, lengthP = 3, potential = [0, 1, 0, 0]\<rparr>"

definition memory4 :: memory where
  "memory4 b =
     (case b of
        WaveFunctionBuffer0 \<Rightarrow> [vec2 0 0, vec2 10 20, vec2 0 0, vec2 0 0]
      | WaveFunctionBuffer1 \<Rightarrow> [vec2 1 0, vec2 2 1, vec2 4 3, vec2 0 0]
      | WaveFunctionBuffer2 \<Rightarrow> [vec2 0 0, vec2 0 0, vec2 0 0, vec2 0 0])"

definition staggered4 :: staggered where
  "staggered4 =
     \<lparr>waveFunction = [vec2 1 0, vec2 2 1, vec2 4 3, vec2 0 0],
      oldWaveFunction = [vec2 0 0, vec2 10 20, vec2 0 0, vec2 0 0]\<rparr>"

text \<open>A wave packet at rest at the origin, and a snapshot of three samples.\<close>

definition wavePacket0 :: WavePacketParameters where
  "wavePacket0 = \<lparr>wp_x0 = 0, wp_w = 1, wp_k = 0\<rparr>"

definition snapshot3 :: "real list" where
  "snapshot3 = [0, 0, 1, 0, 0, 0]"

section \<open>Properties of the host loops\<close>

subsection \<open>Rotation of the two-buffer WebGPU solver\<close>

lemma step_pingpong_loop_eq:
  "pp_running s \<Longrightarrow>
   step_pingpong_loop s count i pass =
     pass @ map (\<lambda>j. \<lparr>bindGroup = waveFunctionBindGroup_pingpong (j mod 2),
                       workgroups = workgroupCountX (pp_xResolution s)\<rparr>) [i..<nat count]"
proof (induction s count i pass rule: step_pingpong_loop.induct)
  case (1 s count i pass)
  show ?case
  proof (cases "int i < count")
    case True
    then have "i < nat count" by simp
    then have "[i..<nat count] = i # [i + 1..<nat count]"
      by (simp add: upt_conv_Cons)
    with True 1 show ?thesis
      by (subst step_pingpong_loop.simps) simp
  next
    case False
    then have "[i..<nat count] = []" by simp
    with False show ?thesis
      by (subst step_pingpong_loop.simps) simp
  qed
qed

lemma last_pass_step_pingpong:
  "last (pp_submitted (step_pingpong count s)) =
     map (\<lambda>j. \<lparr>bindGroup = waveFunctionBindGroup_pingpong (j mod 2),
                workgroups = workgroupCountX (pp_xResolution s)\<rparr>) [0..<nat count]"
  by (simp add: step_pingpong_def Let_def step_pingpong_loop_eq)

lemma bindGroup_pingpong_buffers:
  "binding0 (waveFunctionBindGroup_pingpong (i mod 2)) = waveFunctionBuffer (i mod 2)"
  "binding1 (waveFunctionBindGroup_pingpong (i mod 2)) = waveFunctionBuffer ((i + 1) mod 2)"
  by (auto simp: waveFunctionBindGroup_pingpong_def waveFunctionBuffer_def mod_Suc)

text \<open>
  Claim C10. Every call of \<open>step\<close> of the two-buffer WebGPU solver starts its rotation
  at bind group 0, whatever the object went through before: dispatch \<open>i\<close> of a call
  reads buffer \<open>i mod 2\<close> and writes buffer \<open>(i + 1) mod 2\<close>. A call with an odd
  count \<open>c\<close> ends with a write to buffer 1, and the first dispatch of the call after it
  reads buffer 0.
\<close>

theorem step_restarts_rotation:
  assumes "int i < count" and "0 < c" and "odd c"
  shows "binding0 (bindGroup (last (pp_submitted (step_pingpong count s)) ! i))
           = waveFunctionBuffer (i mod 2) \<and>
         binding1 (bindGroup (last (pp_submitted (step_pingpong count s)) ! i))
           = waveFunctionBuffer ((i + 1) mod 2) \<and>
         length (last (pp_submitted (step_pingpong c s))) = nat c \<and>
         binding1 (bindGroup (last (last (pp_submitted (step_pingpong c s)))))
           = WaveFunctionBuffer1 \<and>
         binding0 (bindGroup
             (last (pp_submitted (step_pingpong count (step_pingpong c s))) ! 0))
           = WaveFunctionBuffer0"
proof -
  let ?d = "\<lambda>s j. \<lparr>bindGroup = waveFunctionBindGroup_pingpong (j mod 2),
                       workgroups = workgroupCountX (pp_xResolution s)\<rparr>"
  from assms have i: "i < nat count" and c: "0 < nat c" by simp_all
  then have z: "0 < nat count" by simp
  from assms have "odd (nat c)"
    by (simp add: even_nat_iff)
  then have m: "nat c mod 2 = 1" by (simp add: odd_iff_mod_2_eq_one)
  have p1: "last (pp_submitted (step_pingpong count s)) ! i = ?d s i"
    using i by (simp only: last_pass_step_pingpong nth_map length_upt nth_upt) simp
  have p2: "last (last (pp_submitted (step_pingpong c s))) = ?d s (nat c - 1)"
    using c by (simp only: last_pass_step_pingpong) (simp add: last_map)
  have p3: "last (pp_submitted (step_pingpong count (step_pingpong c s))) ! 0
              = ?d (step_pingpong c s) 0"
    using z by (simp only: last_pass_step_pingpong nth_map length_upt nth_upt) simp
  have p4: "length (last (pp_submitted (step_pingpong c s))) = nat c"
    by (simp only: last_pass_step_pingpong) simp
  have q: "waveFunctionBuffer ((nat c - 1 + 1) mod 2) = WaveFunctionBuffer1"
    using c m by (simp add: waveFunctionBuffer_def)
  have f: "binding0 (waveFunctionBindGroup_pingpong (0 mod 2)) = WaveFunctionBuffer0"
    by (simp add: waveFunctionBindGroup_pingpong_def)
  show ?thesis
    unfolding p1 p2 p3 p4
    using q f by (simp only: bindGroup_pingpong_buffers dispatch.simps simp_thms)
qed

theorem step_restarts_rotation_witness:
  "int 1 < 2 \<and> (0::int) < 3 \<and> odd (3::int) \<and>
   binding0 (bindGroup (last (pp_submitted
       (step_pingpong 2 (Schrodinger_pingpong_new 128))) ! 1)) = WaveFunctionBuffer1 \<and>
   binding1 (bindGroup (last (pp_submitted
       (step_pingpong 2 (Schrodinger_pingpong_new 128))) ! 1)) = WaveFunctionBuffer0 \<and>
   binding1 (bindGroup (last (last (pp_submitted
       (step_pingpong 3 (Schrodinger_pingpong_new 128)))))) = WaveFunctionBuffer1 \<and>
   binding0 (bindGroup (last (pp_submitted
       (step_pingpong 2 (step_pingpong 3 (Schrodinger_pingpong_new 128)))) ! 0))
     = WaveFunctionBuffer0"
proof -
  have h: "int 1 < 2" "(0::int) < 3" "odd (3::int)" by simp_all
  from step_restarts_rotation [OF h, of "Schrodinger_pingpong_new 128"]
  show ?thesis by (simp add: waveFunctionBuffer_def)
qed

subsection \<open>Rotation of the two-buffer WebGL solver\<close>

lemma timestep_fields:
  "gl_textures (timestep s) = gl_textures s"
  "gl_fbos (timestep s) = gl_fbos s"
  "gl_step (timestep s) = (gl_step s + 1) mod 2"
  by (simp_all add: timestep_def Let_def)

lemma timestep_pow_fields:
  "gl_step s < 2 \<Longrightarrow>
   gl_textures ((timestep ^^ k) s) = gl_textures s \<and>
   gl_fbos ((timestep ^^ k) s) = gl_fbos s \<and>
   gl_step ((timestep ^^ k) s) = (gl_step s + k) mod 2"
proof (induction k)
  case 0
  then show ?case by simp
next
  case (Suc k)
  then show ?case
    by (simp add: timestep_fields mod_Suc_eq)
qed

text \<open>
  Claim C5, as the code has it. \<open>timestep\<close> renders into \<open>fbos[step]\<close>, then flips
  \<open>step\<close> and reads \<open>textures[step]\<close>. After \<open>k \<ge> 1\<close> calls on a new solver
  \<open>getRenderedTexture\<close> returns \<open>textures[(k + 1) mod 2]\<close>: texture 0 for odd
  \<open>k\<close>, texture 1 for even \<open>k\<close>. That is the texture the last call rendered into, and
  \<open>textures[k mod 2]\<close> is the one it read.
\<close>

theorem getRenderedTexture_after_timesteps:
  assumes "1 \<le> k"
  shows "getRenderedTexture ((timestep ^^ k) (setInitialTextures t0 t1 Schrodinger_new))
           = gl_textures ((timestep ^^ k) (setInitialTextures t0 t1 Schrodinger_new))
               ((k + 1) mod 2) \<and>
         getRenderedTexture ((timestep ^^ k) (setInitialTextures t0 t1 Schrodinger_new))
           = Some (if even k then t1 else t0) \<and>
         last (gl_draws ((timestep ^^ k) (setInitialTextures t0 t1 Schrodinger_new)))
           = (Some (FrameBuffer (if even k then t1 else t0)),
              gl_textures ((timestep ^^ k) (setInitialTextures t0 t1 Schrodinger_new))
                (k mod 2))"
proof -
  from assms obtain j where k: "k = Suc j" by (cases k) auto
  let ?s0 = "setInitialTextures t0 t1 Schrodinger_new"
  let ?sj = "(timestep ^^ j) ?s0"
  have f: "gl_textures ?sj = gl_textures ?s0" "gl_fbos ?sj = gl_fbos ?s0"
    "gl_step ?sj = j mod 2"
    using timestep_pow_fields [of ?s0 j]
    by (simp_all add: setInitialTextures_def Schrodinger_new_def)
  have g: "gl_textures ?s0 0 = Some t0" "gl_textures ?s0 (Suc 0) = Some t1"
    "gl_fbos ?s0 0 = Some (FrameBuffer t0)" "gl_fbos ?s0 (Suc 0) = Some (FrameBuffer t1)"
    by (simp_all add: setInitialTextures_def)
  have e: "(timestep ^^ k) ?s0 = timestep ?sj" by (simp add: k)
  have par: "even k \<longleftrightarrow> j mod 2 = 1" unfolding k by presburger
  consider "j mod 2 = 0" | "j mod 2 = 1" by linarith
  then show ?thesis
  proof cases
    case 1
    then show ?thesis
      unfolding e Let_def par
      by (simp add: getRenderedTexture_def timestep_def Let_def f g k mod_Suc)
  next
    case 2
    then show ?thesis
      unfolding e Let_def par
      by (simp add: getRenderedTexture_def timestep_def Let_def f g k mod_Suc)
  qed
qed


theorem getRenderedTexture_after_timesteps_witness:
  "1 \<le> (3::nat) \<and>
   getRenderedTexture ((timestep ^^ 3) (setInitialTextures (10::nat) 11 Schrodinger_new))
     = Some 10 \<and>
   fst (last (gl_draws ((timestep ^^ 3) (setInitialTextures (10::nat) 11 Schrodinger_new))))
     = Some (FrameBuffer 10)"
proof -
  have h: "1 \<le> (3::nat)" by simp
  from getRenderedTexture_after_timesteps [OF h, of "10::nat" 11]
  have "getRenderedTexture ((timestep ^^ 3) (setInitialTextures (10::nat) 11 Schrodinger_new))
          = Some 10"
    and "fst (last (gl_draws ((timestep ^^ 3)
          (setInitialTextures (10::nat) 11 Schrodinger_new)))) = Some (FrameBuffer 10)"
    by auto
  with h show ?thesis by simp
qed

text \<open>
  After one call the accessor returns texture 0, not \<open>textures[1 mod 2]\<close>.
\<close>

theorem getRenderedTexture_counterexample:
  "getRenderedTexture ((timestep ^^ 1) (setInitialTextures (10::nat) 11 Schrodinger_new))
     = Some 10 \<and>
   gl_textures ((timestep ^^ 1) (setInitialTextures (10::nat) 11 Schrodinger_new)) (1 mod 2)
     = Some 11 \<and>
   getRenderedTexture ((timestep ^^ 1) (setInitialTextures (10::nat) 11 Schrodinger_new))
     \<noteq> gl_textures ((timestep ^^ 1) (setInitialTextures (10::nat) 11 Schrodinger_new))
          (1 mod 2)"
  by (simp add: getRenderedTexture_def timestep_def setInitialTextures_def
      Schrodinger_new_def Let_def)

subsection \<open>Capability check of the workgroup-tuned solver\<close>

lemma checkLimit_adapter:
  "requestAdapter nav = Some limits \<Longrightarrow> limits limitName = Some v \<Longrightarrow>
   checkLimit nav limitName n = Inr (n \<le> v)"
  by (simp add: checkLimit_def getAdapter_def)

text \<open>
  Claim C6, as the code has it. When the resolution exceeds one of the two adapter limits,
  \<open>init\<close> returns normally: it records the two flags, which
  \<open>isWorkgroupSizeLimitAvailable\<close> and \<open>isInvocationLimitAvailable\<close> then report, and
  it requests no device. The error that names the limit and the resolution is raised by
  \<open>step\<close>.
\<close>

theorem init_records_step_raises:
  assumes "gpu nav" and "requestAdapter nav = Some limits"
    and "limits workgroupSizeXLimitName = Some a"
    and "limits invocationsPerWorkgroupLimitName = Some b"
    and "a < t_xResolution s \<or> b < t_xResolution s"
  shows "init_tuned nav s =
           Inr (s\<lparr>workgroupSizeLimitAvailable := Some (t_xResolution s \<le> a),
                  invocationLimitAvailable := Some (t_xResolution s \<le> b)\<rparr>) \<and>
         isWorkgroupSizeLimitAvailable
           (s\<lparr>workgroupSizeLimitAvailable := Some (t_xResolution s \<le> a),
              invocationLimitAvailable := Some (t_xResolution s \<le> b)\<rparr>)
           = Some (t_xResolution s \<le> a) \<and>
         isInvocationLimitAvailable
           (s\<lparr>workgroupSizeLimitAvailable := Some (t_xResolution s \<le> a),
              invocationLimitAvailable := Some (t_xResolution s \<le> b)\<rparr>)
           = Some (t_xResolution s \<le> b) \<and>
         step_tuned
           (s\<lparr>workgroupSizeLimitAvailable := Some (t_xResolution s \<le> a),
              invocationLimitAvailable := Some (t_xResolution s \<le> b)\<rparr>)
           = Inl (RequiredLimitUnavailable
                    (if a < t_xResolution s then workgroupSizeXLimitName
                     else invocationsPerWorkgroupLimitName)
                    (t_xResolution s))"
  using assms
  by (auto simp: init_tuned_def WebGPUCompute_new_def checkLimit_adapter Let_def
      step_tuned_def js_not_def isWorkgroupSizeLimitAvailable_def
      isInvocationLimitAvailable_def)

lemma limits256_simps:
  "limits256 workgroupSizeXLimitName = Some 256"
  "limits256 invocationsPerWorkgroupLimitName = Some 256"
  by (simp_all add: limits256_def workgroupSizeXLimitName_def
      invocationsPerWorkgroupLimitName_def)

theorem init_records_step_raises_witness:
  "gpu \<lparr>gpu = True, requestAdapter = Some limits256\<rparr> \<and>
   limits256 workgroupSizeXLimitName = Some 256 \<and>
   limits256 invocationsPerWorkgroupLimitName = Some 256 \<and>
   256 < t_xResolution (Schrodinger_tuned_new 1024 250) \<and>
   init_tuned \<lparr>gpu = True, requestAdapter = Some limits256\<rparr>
     (Schrodinger_tuned_new 1024 250)
     = Inr ((Schrodinger_tuned_new 1024 250)
             \<lparr>workgroupSizeLimitAvailable := Some False,
              invocationLimitAvailable := Some False\<rparr>) \<and>
   isWorkgroupSizeLimitAvailable
     ((Schrodinger_tuned_new 1024 250)
        \<lparr>workgroupSizeLimitAvailable := Some False,
         invocationLimitAvailable := Some False\<rparr>) = Some False"
  using init_records_step_raises [of "\<lparr>gpu = True, requestAdapter = Some limits256\<rparr>"
      limits256 256 256 "Schrodinger_tuned_new 1024 250"]
  by (simp add: limits256_simps Schrodinger_tuned_new_def)

text \<open>
  With limits of 256 and a resolution of 1024, \<open>init\<close> succeeds and the first \<open>step\<close>
  is where the error appears.
\<close>

theorem init_does_not_raise_counterexample:
  "init_tuned \<lparr>gpu = True, requestAdapter = Some limits256\<rparr>
     (Schrodinger_tuned_new 1024 250)
     = Inr ((Schrodinger_tuned_new 1024 250)
             \<lparr>workgroupSizeLimitAvailable := Some False,
              invocationLimitAvailable := Some False\<rparr>) \<and>
   step_tuned ((Schrodinger_tuned_new 1024 250)
             \<lparr>workgroupSizeLimitAvailable := Some False,
              invocationLimitAvailable := Some False\<rparr>)
     = Inl (RequiredLimitUnavailable workgroupSizeXLimitName 1024)"
  by (simp add: init_tuned_def WebGPUCompute_new_def checkLimit_def getAdapter_def
      limits256_simps Schrodinger_tuned_new_def step_tuned_def js_not_def)

section \<open>Properties of the kernels\<close>

subsection \<open>Neighbour indices\<close>

lemma unat_min: "unat (min a b) = min (unat a) (unat b)"
  by (simp add: min_def word_le_nat_alt)

lemma unat_succ: "(i::u32) < n \<Longrightarrow> unat (i + 1) = Suc (unat i)"
proof -
  assume "i < n"
  then have "unat i < unat n" by (simp add: word_less_nat_alt)
  moreover have "unat n < 2 ^ 32" using unsigned_less [of n] by simp
  ultimately have "unat i + 1 < 2 ^ 32" by simp
  then show ?thesis by (simp add: unat_word_ariths)
qed

lemma unat_pred: "(i::u32) \<noteq> 0 \<Longrightarrow> unat (i - 1) = unat i - 1"
  by (simp add: unat_minus_one)

lemma unat_plusDxIndex:
  "index < xRes \<Longrightarrow> unat (plusDxIndex index xRes) = min (unat index + 1) (unat xRes - 1)"
proof -
  assume a: "index < xRes"
  then have "xRes \<noteq> 0" by auto
  with a show ?thesis
    by (simp add: plusDxIndex_def unat_min unat_succ [OF a] unat_pred)
qed

lemma plusDxIndex_in_range:
  "index < xRes \<Longrightarrow> unat (plusDxIndex index xRes) < unat xRes"
  by (simp add: unat_plusDxIndex word_less_nat_alt)

lemma minusDxIndex_eq: "minusDxIndex index = index - 1"
  by (simp add: minusDxIndex_def)

lemma unat_minusDxIndex:
  "index \<noteq> 0 \<Longrightarrow> unat (minusDxIndex index) = unat index - 1"
  by (simp add: minusDxIndex_eq unat_pred)

lemma minusDxIndex_0: "unat (minusDxIndex 0) = 4294967295"
  by (simp add: minusDxIndex_eq unsigned_minus_1_eq_mask mask_eq_exp_minus_1)

text \<open>
  Claim C1 at its failing input, a grid of four points and \<open>index = 0\<close>. In \<open>u32\<close>
  \<open>index - 1\<close> is \<open>4294967295\<close> and \<open>max\<close> with 0 keeps it, so the left-neighbour
  load is outside the grid: what the kernel writes at point 0 follows the value the backend
  delivers for the invalid load, in the two-buffer kernel (\<open>-1\<close> for a delivered
  imaginary part of 2, \<open>0\<close> for 0) and in the leapfrog kernel (\<open>-3\<close> and \<open>-1\<close>).
\<close>

theorem timeStep_index0_reads_outside:
  "unat (minusDxIndex 0) = 4294967295 \<and>
   \<not> unat (minusDxIndex 0) \<le> unat (xResolution params4 - 1) \<and>
   timeStep_pingpong params4 (vec2 0 2) (replicate 4 (vec2 0 0)) 0 (replicate 4 (vec2 0 0)) ! 0
     = vec2 (-1) 0 \<and>
   timeStep_pingpong params4 (vec2 0 0) (replicate 4 (vec2 0 0)) 0 (replicate 4 (vec2 0 0)) ! 0
     = vec2 0 0 \<and>
   timeStep paramsV4 (vec2 0 2) 0 (waveFunctionBindGroup 0) 0 memory4 WaveFunctionBuffer2 ! 0
     = vec2 (-3) 0 \<and>
   timeStep paramsV4 (vec2 0 0) 0 (waveFunctionBindGroup 0) 0 memory4 WaveFunctionBuffer2 ! 0
     = vec2 (-1) 0"
  by (simp add: minusDxIndex_0 params4_def timeStep_pingpong_def Let_def load_def
      store_x_def store_y_def dx_def plusDxIndex_def timeStep_def paramsV4_def memory4_def
      waveFunctionBindGroup_def)

subsection \<open>The spatial step\<close>

lemma dx_eq:
  "xResolution p \<noteq> 0 \<Longrightarrow> dx p = lengthP p / (real (unat (xResolution p)) - 1)"
proof -
  assume n: "xResolution p \<noteq> 0"
  then have "unat (xResolution p) \<noteq> 0" by (simp add: unat_eq_zero)
  then have "real (unat (xResolution p) - 1) = real (unat (xResolution p)) - 1"
    by simp
  with n show ?thesis by (simp add: dx_def unat_pred)
qed

text \<open>The two WebGL shaders, with their \<open>dx\<close> and \<open>ds\<close> written out.\<close>

lemma mixing_signs:
  "(x::real) + a * - 1 * d = x - a * d" "(x::real) + a * 1 * d = x + a * d"
  by simp_all

lemma main_Schrodinger_step:
  "main_Schrodinger u psi v c =
     vec2 (comp_x (psi c)
           - ((comp_y (psi (fst c + 1.2 / real_of_int (u_xResolution u), snd c))
               - 2 * comp_y (psi c)
               + comp_y (psi (fst c - 1.2 / real_of_int (u_xResolution u), snd c)))
              / (2 * (u_length u / real_of_int (u_xResolution u))\<^sup>2)
              - v c * comp_y (psi c)) * u_dt u)
          (comp_y (psi c)
           + ((comp_x (psi (fst c + 1.2 / real_of_int (u_xResolution u), snd c))
               - 2 * comp_x (psi c)
               + comp_x (psi (fst c - 1.2 / real_of_int (u_xResolution u), snd c)))
              / (2 * (u_length u / real_of_int (u_xResolution u))\<^sup>2)
              - v c * comp_x (psi c)) * u_dt u)"
  unfolding main_Schrodinger_def Let_def dx_webgl_def ds_webgl_def mixing_def
  by (simp only: vec2f.sel fst_conv snd_conv add_0_right diff_0_right mixing_signs
      power2_eq_square)

lemma main_SchrodingerMurBoundary_step:
  "main_SchrodingerMurBoundary u old psi v c =
     vec2 (comp_x (old c)
           - ((comp_y (psi (fst c + 1.2 / real_of_int (u_xResolution u), snd c))
               - 2 * comp_y (psi c)
               + comp_y (psi (fst c - 1.2 / real_of_int (u_xResolution u), snd c)))
              / (u_length u / real_of_int (u_xResolution u))\<^sup>2
              - 2 * v c * comp_y (psi c)) * u_dt u)
          (comp_y (old c)
           + ((comp_x (psi (fst c + 1.2 / real_of_int (u_xResolution u), snd c))
               - 2 * comp_x (psi c)
               + comp_x (psi (fst c - 1.2 / real_of_int (u_xResolution u), snd c)))
              / (u_length u / real_of_int (u_xResolution u))\<^sup>2
              - 2 * v c * comp_x (psi c)) * u_dt u)"
  unfolding main_SchrodingerMurBoundary_def Let_def dx_webgl_def ds_webgl_def mixing_def
  by (simp only: vec2f.sel fst_conv snd_conv add_0_right diff_0_right mixing_signs
      power2_eq_square)





subsection \<open>The leapfrog kernel at interior points\<close>

lemma load_in_range: "unat i < length buf \<Longrightarrow> load oob buf i = buf ! unat i"
  by (simp add: load_def)

lemma store_x_then_y:
  "unat i < length buf \<Longrightarrow> store_y (store_x buf i a) i b = buf[unat i := vec2 a b]"
  by (simp add: store_x_def store_y_def)

lemma interior_guard:
  "unat index + 2 \<le> unat (xRes :: u32) \<Longrightarrow> \<not> xRes \<le> index"
  by (simp add: word_le_nat_alt)

lemma interior_plusDxIndex:
  "unat index + 2 \<le> unat (xRes :: u32) \<Longrightarrow> unat (plusDxIndex index xRes) = unat index + 1"
proof -
  assume a: "unat index + 2 \<le> unat xRes"
  then have "index < xRes" by (simp add: word_less_nat_alt)
  from unat_plusDxIndex [OF this] a show ?thesis by simp
qed

lemma interior_minusDxIndex:
  "1 \<le> unat (index :: u32) \<Longrightarrow> unat (minusDxIndex index) = unat index - 1"
proof -
  assume "1 \<le> unat index"
  then have "index \<noteq> 0" by auto
  then show ?thesis by (rule unat_minusDxIndex)
qed

lemma waveFunctionBindGroup_distinct:
  "binding2 (waveFunctionBindGroup j) \<noteq> binding0 (waveFunctionBindGroup j)"
  "binding2 (waveFunctionBindGroup j) \<noteq> binding1 (waveFunctionBindGroup j)"
  "binding0 (waveFunctionBindGroup j) \<noteq> binding1 (waveFunctionBindGroup j)"
  by (simp_all add: waveFunctionBindGroup_def)

lemma timeStep_interior_aux:
  assumes g: "g = waveFunctionBindGroup j"
    and lo: "1 \<le> unat index" and hi: "unat index + 2 \<le> unat (xResolution p)"
    and len: "\<forall>b. length (mem b) = unat (xResolution p)"
    and lenV: "length (potential p) = unat (xResolution p)"
    and old: "old = mem (binding0 g)" and cur: "cur = mem (binding1 g)"
    and i: "i = unat index" and h: "h = lengthP p / (real (unat (xResolution p)) - 1)"
  shows "timeStep p oob oobV g index mem =
           mem (binding2 g := (mem (binding2 g))
             [i := vec2
                (comp_x (old ! i)
                 - dt p * ((comp_y (cur ! (i + 1)) - 2 * comp_y (cur ! i)
                            + comp_y (cur ! (i - 1))) / h\<^sup>2
                           - 2 * (potential p ! i) * comp_y (cur ! i)))
                (comp_y (old ! i)
                 + dt p * ((comp_x (cur ! (i + 1)) - 2 * comp_x (cur ! i)
                            + comp_x (cur ! (i - 1))) / h\<^sup>2
                           - 2 * (potential p ! i) * comp_x (cur ! i)))]) \<and>
         binding2 g \<noteq> binding0 g \<and> binding2 g \<noteq> binding1 g \<and>
         timeStep p oob oobV g index mem (binding0 g) = old \<and>
         timeStep p oob oobV g index mem (binding1 g) = cur"
proof -
  from hi have n0: "xResolution p \<noteq> 0" by auto
  have dxh: "dx p = h" unfolding h by (rule dx_eq [OF n0])
  have in1: "unat index < length (mem b)" for b using len hi by simp
  have in2: "unat index + 1 < length (mem b)" for b using len hi by simp
  have in3: "unat index - 1 < length (mem b)" for b using len hi by simp
  have inV: "unat index < length (potential p)" using lenV hi by simp
  have lp: "load oob (mem b) (plusDxIndex index (xResolution p)) = mem b ! (i + 1)" for b
    using in2 [of b] by (simp add: load_def interior_plusDxIndex [OF hi] i)
  have lm: "load oob (mem b) (minusDxIndex index) = mem b ! (i - 1)" for b
    using in3 [of b] by (simp add: load_def interior_minusDxIndex [OF lo] i)
  have lc: "load oob (mem b) index = mem b ! i" for b
    using in1 [of b] by (simp add: load_def i)
  have lv: "load oobV (potential p) index = potential p ! i"
    using inV by (simp add: load_def i)
  have st: "store_y (store_x (mem b) index a) index c = (mem b)[i := vec2 a c]" for b a c
    using in1 [of b] by (simp add: store_x_then_y i)
  have d: "binding2 g \<noteq> binding0 g" "binding2 g \<noteq> binding1 g"
    unfolding g by (rule waveFunctionBindGroup_distinct)+
  have main: "timeStep p oob oobV g index mem =
           mem (binding2 g := (mem (binding2 g))
             [i := vec2
                (comp_x (old ! i)
                 - dt p * ((comp_y (cur ! (i + 1)) - 2 * comp_y (cur ! i)
                            + comp_y (cur ! (i - 1))) / h\<^sup>2
                           - 2 * (potential p ! i) * comp_y (cur ! i)))
                (comp_y (old ! i)
                 + dt p * ((comp_x (cur ! (i + 1)) - 2 * comp_x (cur ! i)
                            + comp_x (cur ! (i - 1))) / h\<^sup>2
                           - 2 * (potential p ! i) * comp_x (cur ! i)))])"
    unfolding timeStep_def Let_def
    by (simp add: interior_guard [OF hi] lp lm lc lv st dxh old cur
        power2_eq_square mult.commute)
  show ?thesis
    unfolding main using d by (simp add: old cur)
qed


text \<open>
  Claim C3. At an interior point \<open>1 \<le> i \<le> N - 2\<close>, with any of the three bind
  groups, one invocation of the leapfrog kernel replaces element \<open>i\<close> of the buffer
  bound as \<open>updatedWaveFunction\<close> and nothing else:
  \<open>Re = old.Re[i] - dt ((Im[i+1] - 2 Im[i] + Im[i-1]) / dx\<^sup>2 - 2 V[i] Im[i])\<close> and
  \<open>Im = old.Im[i] + dt ((Re[i+1] - 2 Re[i] + Re[i-1]) / dx\<^sup>2 - 2 V[i] Re[i])\<close> with
  \<open>dx = L / (N - 1)\<close>, read from the buffers bound as \<open>oldWaveFunction\<close> and
  \<open>waveFunction\<close>. The written buffer is neither of the two, which stay as they were.
\<close>

theorem timeStep_interior:
  assumes "1 \<le> unat index" and "unat index + 2 \<le> unat (xResolution p)"
    and "\<forall>b. length (mem b) = unat (xResolution p)"
    and "length (potential p) = unat (xResolution p)"
  shows "timeStep p oob oobV (waveFunctionBindGroup j) index mem =
           mem (binding2 (waveFunctionBindGroup j) :=
             (mem (binding2 (waveFunctionBindGroup j)))
             [unat index := vec2
                (comp_x (mem (binding0 (waveFunctionBindGroup j)) ! unat index)
                 - dt p *
                   ((comp_y (mem (binding1 (waveFunctionBindGroup j)) ! (unat index + 1))
                     - 2 * comp_y (mem (binding1 (waveFunctionBindGroup j)) ! unat index)
                     + comp_y (mem (binding1 (waveFunctionBindGroup j)) ! (unat index - 1)))
                    / (lengthP p / (real (unat (xResolution p)) - 1))\<^sup>2
                    - 2 * (potential p ! unat index)
                      * comp_y (mem (binding1 (waveFunctionBindGroup j)) ! unat index)))
                (comp_y (mem (binding0 (waveFunctionBindGroup j)) ! unat index)
                 + dt p *
                   ((comp_x (mem (binding1 (waveFunctionBindGroup j)) ! (unat index + 1))
                     - 2 * comp_x (mem (binding1 (waveFunctionBindGroup j)) ! unat index)
                     + comp_x (mem (binding1 (waveFunctionBindGroup j)) ! (unat index - 1)))
                    / (lengthP p / (real (unat (xResolution p)) - 1))\<^sup>2
                    - 2 * (potential p ! unat index)
                      * comp_x (mem (binding1 (waveFunctionBindGroup j)) ! unat index)))]) \<and>
         binding2 (waveFunctionBindGroup j) \<noteq> binding0 (waveFunctionBindGroup j) \<and>
         binding2 (waveFunctionBindGroup j) \<noteq> binding1 (waveFunctionBindGroup j) \<and>
         timeStep p oob oobV (waveFunctionBindGroup j) index mem
             (binding0 (waveFunctionBindGroup j))
           = mem (binding0 (waveFunctionBindGroup j)) \<and>
         timeStep p oob oobV (waveFunctionBindGroup j) index mem
             (binding1 (waveFunctionBindGroup j))
           = mem (binding1 (waveFunctionBindGroup j))"
  by (rule timeStep_interior_aux [OF refl assms refl refl refl refl])

theorem timeStep_interior_witness:
  "1 \<le> unat (1 :: u32) \<and> unat (1 :: u32) + 2 \<le> unat (xResolution paramsV4) \<and>
   (\<forall>b. length (memory4 b) = unat (xResolution paramsV4)) \<and>
   length (potential paramsV4) = unat (xResolution paramsV4) \<and>
   timeStep paramsV4 (vec2 0 0) 0 (waveFunctionBindGroup 0) 1 memory4 WaveFunctionBuffer2
     = [vec2 0 0, vec2 11 17, vec2 0 0, vec2 0 0] \<and>
   timeStep paramsV4 (vec2 0 0) 0 (waveFunctionBindGroup 0) 1 memory4 WaveFunctionBuffer1
     = memory4 WaveFunctionBuffer1"
proof -
  have h: "1 \<le> unat (1 :: u32)" "unat (1 :: u32) + 2 \<le> unat (xResolution paramsV4)"
    "\<forall>b. length (memory4 b) = unat (xResolution paramsV4)"
    "length (potential paramsV4) = unat (xResolution paramsV4)"
    by (simp_all add: paramsV4_def memory4_def split: buffer.split)
  have e: "binding0 (waveFunctionBindGroup 0) = WaveFunctionBuffer0"
    "binding1 (waveFunctionBindGroup 0) = WaveFunctionBuffer1"
    "binding2 (waveFunctionBindGroup 0) = WaveFunctionBuffer2"
    "memory4 WaveFunctionBuffer0 = [vec2 0 0, vec2 10 20, vec2 0 0, vec2 0 0]"
    "memory4 WaveFunctionBuffer1 = [vec2 1 0, vec2 2 1, vec2 4 3, vec2 0 0]"
    "memory4 WaveFunctionBuffer2 = [vec2 0 0, vec2 0 0, vec2 0 0, vec2 0 0]"
    "dt paramsV4 = 1" "lengthP paramsV4 = 3" "unat (xResolution paramsV4) = 4"
    "potential paramsV4 = [0, 1, 0, 0]"
    by (simp_all add: waveFunctionBindGroup_def paramsV4_def memory4_def)
  from timeStep_interior [OF h, of "vec2 0 0" 0 0]
  have "timeStep paramsV4 (vec2 0 0) 0 (waveFunctionBindGroup 0) 1 memory4 WaveFunctionBuffer2
          = [vec2 0 0, vec2 11 17, vec2 0 0, vec2 0 0]"
    and "timeStep paramsV4 (vec2 0 0) 0 (waveFunctionBindGroup 0) 1 memory4 WaveFunctionBuffer1
          = memory4 WaveFunctionBuffer1"
    by (simp_all add: e)
  with h show ?thesis by simp
qed

subsection \<open>The two passes of the staggered solver\<close>

lemma unat_of_nat_u32: "k < 2 ^ 32 \<Longrightarrow> unat (of_nat k :: u32) = k"
  by (simp add: unat_of_nat)

lemma store_x_nth:
  "unat i < length buf \<Longrightarrow> store_x buf i v = buf[unat i := vec2 v (comp_y (buf ! unat i))]"
  by (simp add: store_x_def)

lemma store_y_nth:
  "unat i < length buf \<Longrightarrow> store_y buf i v = buf[unat i := vec2 (comp_x (buf ! unat i)) v]"
  by (simp add: store_y_def)

lemma realPartTimeStep_guarded:
  "xResolution p \<le> index \<Longrightarrow> realPartTimeStep p oob oobV index m = m"
  by (simp add: realPartTimeStep_def)

lemma realPartTimeStep_at:
  assumes "index < xResolution p"
    and "length (waveFunction m) = unat (xResolution p)"
    and "length (oldWaveFunction m) = unat (xResolution p)"
  shows "realPartTimeStep p oob oobV index m =
           \<lparr>waveFunction = (waveFunction m)
              [unat index := vec2 (realPartValue p oob oobV (waveFunction m) index)
                                  (comp_y (waveFunction m ! unat index))],
            oldWaveFunction = (oldWaveFunction m)
              [unat index := vec2 (comp_x (waveFunction m ! unat index))
                                  (comp_y (oldWaveFunction m ! unat index))]\<rparr>"
proof -
  from assms(1) have g: "\<not> xResolution p \<le> index" by simp
  from assms have i: "unat index < length (waveFunction m)"
    "unat index < length (oldWaveFunction m)"
    by (simp_all add: word_less_nat_alt)
  show ?thesis
    unfolding realPartTimeStep_def Let_def realPartValue_def
    using g i by (simp add: store_x_nth load_def)
qed


lemma load_comp_y_cong:
  assumes "length b1 = length b2" and "\<forall>i<length b1. comp_y (b1 ! i) = comp_y (b2 ! i)"
  shows "comp_y (load oob b1 j) = comp_y (load oob b2 j)"
  using assms by (simp add: load_def)

lemma realPartValue_cong:
  assumes "length b1 = length b2" and "\<forall>i<length b1. comp_y (b1 ! i) = comp_y (b2 ! i)"
    and "comp_x (load oob b1 index) = comp_x (load oob b2 index)"
  shows "realPartValue p oob oobV b1 index = realPartValue p oob oobV b2 index"
  unfolding realPartValue_def
  using assms(3) load_comp_y_cong [OF assms(1,2)] by simp

lemma realPassUpTo_0: "realPassUpTo p oob oobV m 0 = m"
  by (simp add: realPassUpTo_def map_nth)

lemma realPassUpTo_step:
  assumes k: "k < 2 ^ 32"
    and lw: "length (waveFunction m) = unat (xResolution p)"
    and lo: "length (oldWaveFunction m) = unat (xResolution p)"
  shows "realPartTimeStep p oob oobV (of_nat k) (realPassUpTo p oob oobV m k)
           = realPassUpTo p oob oobV m (Suc k)"
proof (cases "k < unat (xResolution p)")
  case False
  then have "xResolution p \<le> of_nat k"
    by (simp add: word_le_nat_alt unat_of_nat_u32 [OF k])
  then have "realPartTimeStep p oob oobV (of_nat k) (realPassUpTo p oob oobV m k)
               = realPassUpTo p oob oobV m k"
    by (rule realPartTimeStep_guarded)
  moreover from False have "realPassUpTo p oob oobV m (Suc k) = realPassUpTo p oob oobV m k"
    by (simp add: realPassUpTo_def lw lo)
  ultimately show ?thesis by simp
next
  case True
  let ?s = "realPassUpTo p oob oobV m k"
  have u: "unat (of_nat k :: u32) = k" by (rule unat_of_nat_u32 [OF k])
  from True have lt: "(of_nat k :: u32) < xResolution p"
    by (simp add: word_less_nat_alt u)
  have len: "length (waveFunction ?s) = unat (xResolution p)"
    "length (oldWaveFunction ?s) = unat (xResolution p)"
    by (simp_all add: realPassUpTo_def lw lo)
  have at_k: "waveFunction ?s ! k = waveFunction m ! k"
    "oldWaveFunction ?s ! k = oldWaveFunction m ! k"
    using True by (simp_all add: realPassUpTo_def lw lo)
  have ys: "\<forall>i<length (waveFunction ?s).
              comp_y (waveFunction ?s ! i) = comp_y (waveFunction m ! i)"
    by (simp add: realPassUpTo_def)
  have lx: "comp_x (load oob (waveFunction ?s) (of_nat k))
            = comp_x (load oob (waveFunction m) (of_nat k))"
    using True by (simp add: load_def u len lw at_k)
  have v: "realPartValue p oob oobV (waveFunction ?s) (of_nat k)
           = realPartValue p oob oobV (waveFunction m) (of_nat k)"
    by (rule realPartValue_cong [OF _ ys lx]) (simp add: len lw)
  have "realPartTimeStep p oob oobV (of_nat k) ?s =
          \<lparr>waveFunction = (waveFunction ?s)
              [k := vec2 (realPartValue p oob oobV (waveFunction m) (of_nat k))
                         (comp_y (waveFunction m ! k))],
           oldWaveFunction = (oldWaveFunction ?s)
              [k := vec2 (comp_x (waveFunction m ! k))
                         (comp_y (oldWaveFunction m ! k))]\<rparr>"
    using realPartTimeStep_at [OF lt len, of oob oobV] by (simp add: u v at_k)
  also have "\<dots> = realPassUpTo p oob oobV m (Suc k)"
  proof -
    have "(waveFunction ?s)
              [k := vec2 (realPartValue p oob oobV (waveFunction m) (of_nat k))
                         (comp_y (waveFunction m ! k))]
          = waveFunction (realPassUpTo p oob oobV m (Suc k))"
      by (rule nth_equalityI)
         (auto simp: realPassUpTo_def nth_list_update less_Suc_eq)
    moreover have "(oldWaveFunction ?s)
              [k := vec2 (comp_x (waveFunction m ! k)) (comp_y (oldWaveFunction m ! k))]
          = oldWaveFunction (realPassUpTo p oob oobV m (Suc k))"
      by (rule nth_equalityI)
         (auto simp: realPassUpTo_def nth_list_update less_Suc_eq)
    ultimately show ?thesis by (simp add: realPassUpTo_def)
  qed
  finally show ?thesis .
qed

lemma fold_realPartTimeStep:
  assumes "k \<le> 2 ^ 32"
    and "length (waveFunction m) = unat (xResolution p)"
    and "length (oldWaveFunction m) = unat (xResolution p)"
  shows "fold (realPartTimeStep p oob oobV) (map of_nat [0..<k]) m
           = realPassUpTo p oob oobV m k"
  using assms(1)
proof (induction k)
  case 0
  show ?case by (simp add: realPassUpTo_0)
next
  case (Suc k)
  then have "k < 2 ^ 32" and "k \<le> 2 ^ 32" by simp_all
  with Suc.IH realPassUpTo_step [OF _ assms(2,3), of k oob oobV]
  show ?case by simp
qed

lemma imaginaryPartTimeStep_guarded:
  "xResolution p \<le> index \<Longrightarrow> imaginaryPartTimeStep p oob oobV index m = m"
  by (simp add: imaginaryPartTimeStep_def)

lemma imaginaryPartTimeStep_at:
  assumes "index < xResolution p"
    and "length (waveFunction m) = unat (xResolution p)"
    and "length (oldWaveFunction m) = unat (xResolution p)"
  shows "imaginaryPartTimeStep p oob oobV index m =
           \<lparr>waveFunction = (waveFunction m)
              [unat index := vec2 (comp_x (waveFunction m ! unat index))
                                  (imaginaryPartValue p oob oobV (waveFunction m) index)],
            oldWaveFunction = (oldWaveFunction m)
              [unat index := vec2 (comp_x (oldWaveFunction m ! unat index))
                                  (comp_y (waveFunction m ! unat index))]\<rparr>"
proof -
  from assms(1) have g: "\<not> xResolution p \<le> index" by simp
  from assms have i: "unat index < length (waveFunction m)"
    "unat index < length (oldWaveFunction m)"
    by (simp_all add: word_less_nat_alt)
  show ?thesis
    unfolding imaginaryPartTimeStep_def Let_def imaginaryPartValue_def
    using g i by (simp add: store_y_nth load_def)
qed


lemma load_comp_x_cong:
  assumes "length b1 = length b2" and "\<forall>i<length b1. comp_x (b1 ! i) = comp_x (b2 ! i)"
  shows "comp_x (load oob b1 j) = comp_x (load oob b2 j)"
  using assms by (simp add: load_def)

lemma imaginaryPartValue_cong:
  assumes "length b1 = length b2" and "\<forall>i<length b1. comp_x (b1 ! i) = comp_x (b2 ! i)"
    and "comp_y (load oob b1 index) = comp_y (load oob b2 index)"
  shows "imaginaryPartValue p oob oobV b1 index = imaginaryPartValue p oob oobV b2 index"
  unfolding imaginaryPartValue_def
  using assms(3) load_comp_x_cong [OF assms(1,2)] by simp

lemma imaginaryPassUpTo_0: "imaginaryPassUpTo p oob oobV m 0 = m"
  by (simp add: imaginaryPassUpTo_def map_nth)

lemma imaginaryPassUpTo_step:
  assumes k: "k < 2 ^ 32"
    and lw: "length (waveFunction m) = unat (xResolution p)"
    and lo: "length (oldWaveFunction m) = unat (xResolution p)"
  shows "imaginaryPartTimeStep p oob oobV (of_nat k) (imaginaryPassUpTo p oob oobV m k)
           = imaginaryPassUpTo p oob oobV m (Suc k)"
proof (cases "k < unat (xResolution p)")
  case False
  then have "xResolution p \<le> of_nat k"
    by (simp add: word_le_nat_alt unat_of_nat_u32 [OF k])
  then have "imaginaryPartTimeStep p oob oobV (of_nat k) (imaginaryPassUpTo p oob oobV m k)
               = imaginaryPassUpTo p oob oobV m k"
    by (rule imaginaryPartTimeStep_guarded)
  moreover from False have "imaginaryPassUpTo p oob oobV m (Suc k) = imaginaryPassUpTo p oob oobV m k"
    by (simp add: imaginaryPassUpTo_def lw lo)
  ultimately show ?thesis by simp
next
  case True
  let ?s = "imaginaryPassUpTo p oob oobV m k"
  have u: "unat (of_nat k :: u32) = k" by (rule unat_of_nat_u32 [OF k])
  from True have lt: "(of_nat k :: u32) < xResolution p"
    by (simp add: word_less_nat_alt u)
  have len: "length (waveFunction ?s) = unat (xResolution p)"
    "length (oldWaveFunction ?s) = unat (xResolution p)"
    by (simp_all add: imaginaryPassUpTo_def lw lo)
  have at_k: "waveFunction ?s ! k = waveFunction m ! k"
    "oldWaveFunction ?s ! k = oldWaveFunction m ! k"
    using True by (simp_all add: imaginaryPassUpTo_def lw lo)
  have ys: "\<forall>i<length (waveFunction ?s).
              comp_x (waveFunction ?s ! i) = comp_x (waveFunction m ! i)"
    by (simp add: imaginaryPassUpTo_def)
  have lx: "comp_y (load oob (waveFunction ?s) (of_nat k))
            = comp_y (load oob (waveFunction m) (of_nat k))"
    using True by (simp add: load_def u len lw at_k)
  have v: "imaginaryPartValue p oob oobV (waveFunction ?s) (of_nat k)
           = imaginaryPartValue p oob oobV (waveFunction m) (of_nat k)"
    by (rule imaginaryPartValue_cong [OF _ ys lx]) (simp add: len lw)
  have "imaginaryPartTimeStep p oob oobV (of_nat k) ?s =
          \<lparr>waveFunction = (waveFunction ?s)
              [k := vec2 (comp_x (waveFunction m ! k))
                         (imaginaryPartValue p oob oobV (waveFunction m) (of_nat k))],
           oldWaveFunction = (oldWaveFunction ?s)
              [k := vec2 (comp_x (oldWaveFunction m ! k))
                         (comp_y (waveFunction m ! k))]\<rparr>"
    using imaginaryPartTimeStep_at [OF lt len, of oob oobV] by (simp add: u v at_k)
  also have "\<dots> = imaginaryPassUpTo p oob oobV m (Suc k)"
  proof -
    have "(waveFunction ?s)
              [k := vec2 (comp_x (waveFunction m ! k))
                         (imaginaryPartValue p oob oobV (waveFunction m) (of_nat k))]
          = waveFunction (imaginaryPassUpTo p oob oobV m (Suc k))"
      by (rule nth_equalityI)
         (auto simp: imaginaryPassUpTo_def nth_list_update less_Suc_eq)
    moreover have "(oldWaveFunction ?s)
              [k := vec2 (comp_x (oldWaveFunction m ! k)) (comp_y (waveFunction m ! k))]
          = oldWaveFunction (imaginaryPassUpTo p oob oobV m (Suc k))"
      by (rule nth_equalityI)
         (auto simp: imaginaryPassUpTo_def nth_list_update less_Suc_eq)
    ultimately show ?thesis by (simp add: imaginaryPassUpTo_def)
  qed
  finally show ?thesis .
qed

lemma fold_imaginaryPartTimeStep:
  assumes "k \<le> 2 ^ 32"
    and "length (waveFunction m) = unat (xResolution p)"
    and "length (oldWaveFunction m) = unat (xResolution p)"
  shows "fold (imaginaryPartTimeStep p oob oobV) (map of_nat [0..<k]) m
           = imaginaryPassUpTo p oob oobV m k"
  using assms(1)
proof (induction k)
  case 0
  show ?case by (simp add: imaginaryPassUpTo_0)
next
  case (Suc k)
  then have "k < 2 ^ 32" and "k \<le> 2 ^ 32" by simp_all
  with Suc.IH imaginaryPassUpTo_step [OF _ assms(2,3), of k oob oobV]
  show ?case by simp
qed

lemma workgroups_cover:
  "n \<le> WORKGROUP_SIZE * workgroupCountX n"
  by (simp add: WORKGROUP_SIZE_def workgroupCountX_def)

lemma workgroups_bound:
  "n \<le> 4294967232 \<Longrightarrow> WORKGROUP_SIZE * workgroupCountX n \<le> 2 ^ 32"
  by (simp add: WORKGROUP_SIZE_def workgroupCountX_def)

lemma realPass_eq:
  assumes "unat (xResolution p) \<le> 4294967232"
    and "length (waveFunction m) = unat (xResolution p)"
    and "length (oldWaveFunction m) = unat (xResolution p)"
  shows "realPass p oob oobV m
           = realPassUpTo p oob oobV m
               (WORKGROUP_SIZE * workgroupCountX (unat (xResolution p)))"
  unfolding realPass_def dispatchWorkgroups_def
  by (rule fold_realPartTimeStep [OF workgroups_bound [OF assms(1)] assms(2,3)])


lemma imaginaryPass_eq:
  assumes "unat (xResolution p) \<le> 4294967232"
    and "length (waveFunction m) = unat (xResolution p)"
    and "length (oldWaveFunction m) = unat (xResolution p)"
  shows "imaginaryPass p oob oobV m
           = imaginaryPassUpTo p oob oobV m
               (WORKGROUP_SIZE * workgroupCountX (unat (xResolution p)))"
  unfolding imaginaryPass_def dispatchWorkgroups_def
  by (rule fold_imaginaryPartTimeStep [OF workgroups_bound [OF assms(1)] assms(2,3)])


lemma realPass_point:
  assumes n: "unat (xResolution p) \<le> 4294967232"
    and lw: "length (waveFunction m) = unat (xResolution p)"
    and lo: "length (oldWaveFunction m) = unat (xResolution p)"
    and lv: "length (potential p) = unat (xResolution p)"
    and i: "i < unat (xResolution p)"
  shows "waveFunction (realPass p oob oobV m) ! i =
           vec2 (comp_x (waveFunction m ! i)
                 - ((comp_y (load oob (waveFunction m)
                               (plusDxIndex (of_nat i) (xResolution p)))
                     - 2 * comp_y (waveFunction m ! i)
                     + comp_y (load oob (waveFunction m) (minusDxIndex (of_nat i))))
                    / (2 * dx p * dx p)
                    - potential p ! i * comp_y (waveFunction m ! i)) * dt p)
                (comp_y (waveFunction m ! i))"
    and "oldWaveFunction (realPass p oob oobV m) ! i =
           vec2 (comp_x (waveFunction m ! i)) (comp_y (oldWaveFunction m ! i))"
    and "length (waveFunction (realPass p oob oobV m)) = unat (xResolution p)"
    and "length (oldWaveFunction (realPass p oob oobV m)) = unat (xResolution p)"
proof -
  from i n have "i < 2 ^ 32" by simp
  then have u: "unat (of_nat i :: u32) = i" by (rule unat_of_nat_u32)
  have c: "i < WORKGROUP_SIZE * workgroupCountX (unat (xResolution p))"
    using i workgroups_cover [of "unat (xResolution p)"] by simp
  have v: "realPartValue p oob oobV (waveFunction m) (of_nat i) =
             comp_x (waveFunction m ! i)
                 - ((comp_y (load oob (waveFunction m)
                               (plusDxIndex (of_nat i) (xResolution p)))
                     - 2 * comp_y (waveFunction m ! i)
                     + comp_y (load oob (waveFunction m) (minusDxIndex (of_nat i))))
                    / (2 * dx p * dx p)
                    - potential p ! i * comp_y (waveFunction m ! i)) * dt p"
    unfolding realPartValue_def
    using i by (simp add: load_in_range u lw lv)
  show "waveFunction (realPass p oob oobV m) ! i =
           vec2 (comp_x (waveFunction m ! i)
                 - ((comp_y (load oob (waveFunction m)
                               (plusDxIndex (of_nat i) (xResolution p)))
                     - 2 * comp_y (waveFunction m ! i)
                     + comp_y (load oob (waveFunction m) (minusDxIndex (of_nat i))))
                    / (2 * dx p * dx p)
                    - potential p ! i * comp_y (waveFunction m ! i)) * dt p)
                (comp_y (waveFunction m ! i))"
    unfolding realPass_eq [OF n lw lo] v [symmetric]
    using i c by (simp add: realPassUpTo_def lw)
  show "oldWaveFunction (realPass p oob oobV m) ! i =
           vec2 (comp_x (waveFunction m ! i)) (comp_y (oldWaveFunction m ! i))"
    unfolding realPass_eq [OF n lw lo]
    using i c by (simp add: realPassUpTo_def lo)
  show "length (waveFunction (realPass p oob oobV m)) = unat (xResolution p)"
    unfolding realPass_eq [OF n lw lo] by (simp add: realPassUpTo_def lw)
  show "length (oldWaveFunction (realPass p oob oobV m)) = unat (xResolution p)"
    unfolding realPass_eq [OF n lw lo] by (simp add: realPassUpTo_def lo)
qed

lemma imaginaryPass_point:
  assumes n: "unat (xResolution p) \<le> 4294967232"
    and lw: "length (waveFunction m) = unat (xResolution p)"
    and lo: "length (oldWaveFunction m) = unat (xResolution p)"
    and lv: "length (potential p) = unat (xResolution p)"
    and i: "i < unat (xResolution p)"
  shows "waveFunction (imaginaryPass p oob oobV m) ! i =
           vec2 (comp_x (waveFunction m ! i))
                (comp_y (waveFunction m ! i)
                 + ((comp_x (load oob (waveFunction m)
                               (plusDxIndex (of_nat i) (xResolution p)))
                     - 2 * comp_x (waveFunction m ! i)
                     + comp_x (load oob (waveFunction m) (minusDxIndex (of_nat i))))
                    / (2 * dx p * dx p)
                    - potential p ! i * comp_x (waveFunction m ! i)) * dt p)"
    and "oldWaveFunction (imaginaryPass p oob oobV m) ! i =
           vec2 (comp_x (oldWaveFunction m ! i)) (comp_y (waveFunction m ! i))"
    and "length (waveFunction (imaginaryPass p oob oobV m)) = unat (xResolution p)"
    and "length (oldWaveFunction (imaginaryPass p oob oobV m)) = unat (xResolution p)"
proof -
  from i n have "i < 2 ^ 32" by simp
  then have u: "unat (of_nat i :: u32) = i" by (rule unat_of_nat_u32)
  have c: "i < WORKGROUP_SIZE * workgroupCountX (unat (xResolution p))"
    using i workgroups_cover [of "unat (xResolution p)"] by simp
  have v: "imaginaryPartValue p oob oobV (waveFunction m) (of_nat i) =
             comp_y (waveFunction m ! i)
                 + ((comp_x (load oob (waveFunction m)
                               (plusDxIndex (of_nat i) (xResolution p)))
                     - 2 * comp_x (waveFunction m ! i)
                     + comp_x (load oob (waveFunction m) (minusDxIndex (of_nat i))))
                    / (2 * dx p * dx p)
                    - potential p ! i * comp_x (waveFunction m ! i)) * dt p"
    unfolding imaginaryPartValue_def
    using i by (simp add: load_in_range u lw lv)
  show "waveFunction (imaginaryPass p oob oobV m) ! i =
           vec2 (comp_x (waveFunction m ! i))
                (comp_y (waveFunction m ! i)
                 + ((comp_x (load oob (waveFunction m)
                               (plusDxIndex (of_nat i) (xResolution p)))
                     - 2 * comp_x (waveFunction m ! i)
                     + comp_x (load oob (waveFunction m) (minusDxIndex (of_nat i))))
                    / (2 * dx p * dx p)
                    - potential p ! i * comp_x (waveFunction m ! i)) * dt p)"
    unfolding imaginaryPass_eq [OF n lw lo] v [symmetric]
    using i c by (simp add: imaginaryPassUpTo_def lw)
  show "oldWaveFunction (imaginaryPass p oob oobV m) ! i =
           vec2 (comp_x (oldWaveFunction m ! i)) (comp_y (waveFunction m ! i))"
    unfolding imaginaryPass_eq [OF n lw lo]
    using i c by (simp add: imaginaryPassUpTo_def lo)
  show "length (waveFunction (imaginaryPass p oob oobV m)) = unat (xResolution p)"
    unfolding imaginaryPass_eq [OF n lw lo] by (simp add: imaginaryPassUpTo_def lw)
  show "length (oldWaveFunction (imaginaryPass p oob oobV m)) = unat (xResolution p)"
    unfolding imaginaryPass_eq [OF n lw lo] by (simp add: imaginaryPassUpTo_def lo)
qed


text \<open>
  Claim C8. For every point \<open>i\<close> of the grid the real-part pass leaves the imaginary
  component of both buffers as it was, saves the old real component into
  \<open>oldWaveFunction[i].x\<close> and writes into \<open>waveFunction[i].x\<close> a value computed from
  that old real component and the imaginary components of the point and its two
  neighbours, as they were before the pass. The imaginary-part pass does the same with the
  components exchanged. (At \<open>i = 0\<close> the left neighbour is the load of claim C1.)
\<close>

theorem staggered_passes_frame:
  assumes "unat (xResolution p) \<le> 4294967232"
    and "length (waveFunction m) = unat (xResolution p)"
    and "length (oldWaveFunction m) = unat (xResolution p)"
    and "length (potential p) = unat (xResolution p)"
    and "i < unat (xResolution p)"
  shows "comp_y (waveFunction (realPass p oob oobV m) ! i) = comp_y (waveFunction m ! i) \<and>
         comp_y (oldWaveFunction (realPass p oob oobV m) ! i)
           = comp_y (oldWaveFunction m ! i) \<and>
         comp_x (oldWaveFunction (realPass p oob oobV m) ! i)
           = comp_x (waveFunction m ! i) \<and>
         comp_x (waveFunction (realPass p oob oobV m) ! i)
           = comp_x (waveFunction m ! i)
             - ((comp_y (load oob (waveFunction m) (plusDxIndex (of_nat i) (xResolution p)))
                 - 2 * comp_y (waveFunction m ! i)
                 + comp_y (load oob (waveFunction m) (minusDxIndex (of_nat i))))
                / (2 * dx p * dx p)
                - potential p ! i * comp_y (waveFunction m ! i)) * dt p \<and>
         comp_x (waveFunction (imaginaryPass p oob oobV m) ! i)
           = comp_x (waveFunction m ! i) \<and>
         comp_x (oldWaveFunction (imaginaryPass p oob oobV m) ! i)
           = comp_x (oldWaveFunction m ! i) \<and>
         comp_y (oldWaveFunction (imaginaryPass p oob oobV m) ! i)
           = comp_y (waveFunction m ! i) \<and>
         comp_y (waveFunction (imaginaryPass p oob oobV m) ! i)
           = comp_y (waveFunction m ! i)
             + ((comp_x (load oob (waveFunction m) (plusDxIndex (of_nat i) (xResolution p)))
                 - 2 * comp_x (waveFunction m ! i)
                 + comp_x (load oob (waveFunction m) (minusDxIndex (of_nat i))))
                / (2 * dx p * dx p)
                - potential p ! i * comp_x (waveFunction m ! i)) * dt p \<and>
         length (waveFunction (realPass p oob oobV m)) = length (waveFunction m) \<and>
         length (oldWaveFunction (realPass p oob oobV m)) = length (oldWaveFunction m) \<and>
         length (waveFunction (imaginaryPass p oob oobV m)) = length (waveFunction m) \<and>
         length (oldWaveFunction (imaginaryPass p oob oobV m)) = length (oldWaveFunction m)"
  by (simp add: realPass_point [OF assms] imaginaryPass_point [OF assms] assms(2,3))

theorem staggered_passes_frame_witness:
  "unat (xResolution paramsV4) \<le> 4294967232 \<and>
   length (waveFunction staggered4) = unat (xResolution paramsV4) \<and>
   length (oldWaveFunction staggered4) = unat (xResolution paramsV4) \<and>
   length (potential paramsV4) = unat (xResolution paramsV4) \<and>
   1 < unat (xResolution paramsV4) \<and>
   waveFunction (realPass paramsV4 (vec2 0 0) 0 staggered4) ! 1 = vec2 (5 / 2) 1 \<and>
   oldWaveFunction (realPass paramsV4 (vec2 0 0) 0 staggered4) ! 1 = vec2 2 20 \<and>
   waveFunction (imaginaryPass paramsV4 (vec2 0 0) 0 staggered4) ! 1 = vec2 2 (- 1 / 2) \<and>
   oldWaveFunction (imaginaryPass paramsV4 (vec2 0 0) 0 staggered4) ! 1 = vec2 10 1"
proof -
  have h: "unat (xResolution paramsV4) \<le> 4294967232"
    "length (waveFunction staggered4) = unat (xResolution paramsV4)"
    "length (oldWaveFunction staggered4) = unat (xResolution paramsV4)"
    "length (potential paramsV4) = unat (xResolution paramsV4)"
    "1 < unat (xResolution paramsV4)"
    by (simp_all add: paramsV4_def staggered4_def)
  have e: "waveFunction staggered4 ! Suc 0 = vec2 2 1"
    "oldWaveFunction staggered4 ! Suc 0 = vec2 10 20"
    "load (vec2 0 0) (waveFunction staggered4) (plusDxIndex 1 (xResolution paramsV4))
       = vec2 4 3"
    "load (vec2 0 0) (waveFunction staggered4) (minusDxIndex 1) = vec2 1 0"
    "potential paramsV4 ! Suc 0 = 1" "dx paramsV4 = 1" "dt paramsV4 = 1"
    by (simp_all add: paramsV4_def staggered4_def load_def plusDxIndex_def minusDxIndex_def
        dx_def)
  from staggered_passes_frame [OF h, of "vec2 0 0" 0]
  have "comp_x (waveFunction (realPass paramsV4 (vec2 0 0) 0 staggered4) ! 1) = 5 / 2"
    "comp_y (waveFunction (realPass paramsV4 (vec2 0 0) 0 staggered4) ! 1) = 1"
    "comp_x (oldWaveFunction (realPass paramsV4 (vec2 0 0) 0 staggered4) ! 1) = 2"
    "comp_y (oldWaveFunction (realPass paramsV4 (vec2 0 0) 0 staggered4) ! 1) = 20"
    "comp_x (waveFunction (imaginaryPass paramsV4 (vec2 0 0) 0 staggered4) ! 1) = 2"
    "comp_y (waveFunction (imaginaryPass paramsV4 (vec2 0 0) 0 staggered4) ! 1) = - 1 / 2"
    "comp_x (oldWaveFunction (imaginaryPass paramsV4 (vec2 0 0) 0 staggered4) ! 1) = 10"
    "comp_y (oldWaveFunction (imaginaryPass paramsV4 (vec2 0 0) 0 staggered4) ! 1) = 1"
    by (simp_all add: e)
  then show ?thesis using h by (simp add: vec2f.expand)
qed

subsection \<open>Mur boundary with a zero coefficient\<close>

lemma dispatch_two:
  "dispatchWorkgroups 2 entry 1 s = entry 1 (entry 0 s)"
proof -
  have "[0..<2 * 1] = [0, 1]" by (simp add: upt_rec)
  then show ?thesis by (simp add: dispatchWorkgroups_def)
qed

lemma vadd_smul_zero: "vadd a (smul 0 b) = a"
  by (simp add: vadd_def smul_def)

lemma unat_xRes_minus:
  assumes "3 \<le> unat (n :: u32)"
  shows "unat (n - 1) = unat n - 1" and "unat (n - 2) = unat n - 2"
proof -
  from assms have "1 \<le> n" and "2 \<le> n" by (simp_all add: word_le_nat_alt)
  then show "unat (n - 1) = unat n - 1" and "unat (n - 2) = unat n - 2"
    by (simp_all add: unat_sub)
qed

lemma murCoefficient_zero:
  "phaseVelocity * dt p = dx p \<Longrightarrow> murCoefficient p phaseVelocity = 0"
  by (simp add: murCoefficient_def)

lemma recomputeBoundary_left:
  assumes "phaseVelocity * dt p = dx p" and "3 \<le> unat (xResolution p)"
    and "length (mem (binding1 g)) = unat (xResolution p)"
    and "length (mem (binding2 g)) = unat (xResolution p)"
  shows "recomputeBoundary p oob phaseVelocity g 0 mem =
           mem (binding2 g := (mem (binding2 g))[0 := mem (binding1 g) ! 1])"
  using assms
  by (simp add: recomputeBoundary_def Let_def murCoefficient_zero vadd_smul_zero
      store_def load_def)

lemma recomputeBoundary_right:
  assumes "phaseVelocity * dt p = dx p" and "3 \<le> unat (xResolution p)"
    and "length (mem (binding1 g)) = unat (xResolution p)"
    and "length (mem (binding2 g)) = unat (xResolution p)"
  shows "recomputeBoundary p oob phaseVelocity g 1 mem =
           mem (binding2 g := (mem (binding2 g))
             [unat (xResolution p) - 1 := mem (binding1 g) ! (unat (xResolution p) - 2)])"
  using assms
  by (simp add: recomputeBoundary_def Let_def murCoefficient_zero vadd_smul_zero
      store_def load_def unat_xRes_minus)


lemma makeComputePass_zero:
  assumes c: "phaseVelocity * dt p = dx p" and n: "3 \<le> unat (xResolution p)"
    and g: "g = waveFunctionBindGroup j"
    and len: "\<forall>b. length (mem b) = unat (xResolution p)"
  shows "makeComputePass p oob phaseVelocity g mem =
           mem (binding2 g := (mem (binding2 g))
             [0 := mem (binding1 g) ! 1,
              unat (xResolution p) - 1 := mem (binding1 g) ! (unat (xResolution p) - 2)])"
proof -
  let ?mem0 = "mem (binding2 g := (mem (binding2 g))[0 := mem (binding1 g) ! 1])"
  have d: "binding1 g \<noteq> binding2 g"
    unfolding g by (simp add: waveFunctionBindGroup_def)
  have l: "length (mem (binding1 g)) = unat (xResolution p)"
    "length (mem (binding2 g)) = unat (xResolution p)"
    using len by simp_all
  have s0: "recomputeBoundary p oob phaseVelocity g 0 mem = ?mem0"
    by (rule recomputeBoundary_left [OF c n l])
  have l0: "length (?mem0 (binding1 g)) = unat (xResolution p)"
    "length (?mem0 (binding2 g)) = unat (xResolution p)"
    using len d by simp_all
  have "recomputeBoundary p oob phaseVelocity g 1 ?mem0 =
          ?mem0 (binding2 g := (?mem0 (binding2 g))
             [unat (xResolution p) - 1 := ?mem0 (binding1 g) ! (unat (xResolution p) - 2)])"
    by (rule recomputeBoundary_right [OF c n l0])
  then show ?thesis
    unfolding makeComputePass_def dispatch_two s0 using d by simp
qed

lemma makeRealComputePass_zero:
  assumes c: "phaseVelocity * dt p = dx p" and n: "3 \<le> unat (xResolution p)"
    and lw: "length (waveFunction m) = unat (xResolution p)"
    and lo: "length (oldWaveFunction m) = unat (xResolution p)"
  shows "makeRealComputePass p oob phaseVelocity m =
           m\<lparr>waveFunction := (waveFunction m)
             [0 := vec2 (comp_x (oldWaveFunction m ! 1)) (comp_y (waveFunction m ! 0)),
              unat (xResolution p) - 1 :=
                vec2 (comp_x (oldWaveFunction m ! (unat (xResolution p) - 2)))
                     (comp_y (waveFunction m ! (unat (xResolution p) - 1)))]\<rparr>"
  unfolding makeRealComputePass_def dispatch_two
  using n lw lo
  by (simp add: recomputeRealBoundary_def Let_def murCoefficient_zero [OF c]
      store_x_def load_def unat_xRes_minus)

lemma makeImaginaryComputePass_zero:
  assumes c: "phaseVelocity * dt p = dx p" and n: "3 \<le> unat (xResolution p)"
    and lw: "length (waveFunction m) = unat (xResolution p)"
    and lo: "length (oldWaveFunction m) = unat (xResolution p)"
  shows "makeImaginaryComputePass p oob phaseVelocity m =
           m\<lparr>waveFunction := (waveFunction m)
             [0 := vec2 (comp_x (waveFunction m ! 0)) (comp_y (oldWaveFunction m ! 1)),
              unat (xResolution p) - 1 :=
                vec2 (comp_x (waveFunction m ! (unat (xResolution p) - 1)))
                     (comp_y (oldWaveFunction m ! (unat (xResolution p) - 2)))]\<rparr>"
  unfolding makeImaginaryComputePass_def dispatch_two
  using n lw lo
  by (simp add: recomputeImaginaryBoundary_def Let_def murCoefficient_zero [OF c]
      store_y_def load_def unat_xRes_minus)

text \<open>
  Claim C7. When \<open>vp dt = dx\<close> on a grid of at least three points of positive length,
  the Mur coefficient is zero. The boundary pass of the leapfrog solver then writes
  \<open>waveFunction[1]\<close> into \<open>updatedWaveFunction[0]\<close> and \<open>waveFunction[N-2]\<close> into
  \<open>updatedWaveFunction[N-1]\<close>; the two passes of the staggered solver write the real,
  respectively imaginary, component of \<open>oldWaveFunction[1]\<close> and
  \<open>oldWaveFunction[N-2]\<close> into the same component of the two edge points. Nothing else
  changes, and every load is inside its buffer.
\<close>

theorem mur_zero_coefficient:
  assumes "phaseVelocity * dt p = dx p" and "3 \<le> unat (xResolution p)"
    and "0 < lengthP p"
    and "g = waveFunctionBindGroup j"
    and "\<forall>b. length (mem b) = unat (xResolution p)"
    and "length (waveFunction m) = unat (xResolution p)"
    and "length (oldWaveFunction m) = unat (xResolution p)"
  shows "murCoefficient p phaseVelocity = 0 \<and>
         makeComputePass p oob phaseVelocity g mem =
           mem (binding2 g := (mem (binding2 g))
             [0 := mem (binding1 g) ! 1,
              unat (xResolution p) - 1 := mem (binding1 g) ! (unat (xResolution p) - 2)]) \<and>
         makeRealComputePass p oob phaseVelocity m =
           m\<lparr>waveFunction := (waveFunction m)
             [0 := vec2 (comp_x (oldWaveFunction m ! 1)) (comp_y (waveFunction m ! 0)),
              unat (xResolution p) - 1 :=
                vec2 (comp_x (oldWaveFunction m ! (unat (xResolution p) - 2)))
                     (comp_y (waveFunction m ! (unat (xResolution p) - 1)))]\<rparr> \<and>
         makeImaginaryComputePass p oob phaseVelocity m =
           m\<lparr>waveFunction := (waveFunction m)
             [0 := vec2 (comp_x (waveFunction m ! 0)) (comp_y (oldWaveFunction m ! 1)),
              unat (xResolution p) - 1 :=
                vec2 (comp_x (waveFunction m ! (unat (xResolution p) - 1)))
                     (comp_y (oldWaveFunction m ! (unat (xResolution p) - 2)))]\<rparr>"
  using murCoefficient_zero [OF assms(1)]
    makeComputePass_zero [OF assms(1,2,4,5)]
    makeRealComputePass_zero [OF assms(1,2,6,7)]
    makeImaginaryComputePass_zero [OF assms(1,2,6,7)]
  by simp


theorem mur_zero_coefficient_witness:
  "1 * dt paramsV4 = dx paramsV4 \<and> 3 \<le> unat (xResolution paramsV4) \<and>
   0 < lengthP paramsV4 \<and>
   (\<forall>b. length (memory4 b) = unat (xResolution paramsV4)) \<and>
   length (waveFunction staggered4) = unat (xResolution paramsV4) \<and>
   length (oldWaveFunction staggered4) = unat (xResolution paramsV4) \<and>
   murCoefficient paramsV4 1 = 0 \<and>
   makeComputePass paramsV4 (vec2 7 7) 1 (waveFunctionBindGroup 0) memory4 WaveFunctionBuffer2
     = [vec2 2 1, vec2 0 0, vec2 0 0, vec2 4 3] \<and>
   waveFunction (makeRealComputePass paramsV4 (vec2 7 7) 1 staggered4)
     = [vec2 10 0, vec2 2 1, vec2 4 3, vec2 0 0]"
proof -
  have h: "1 * dt paramsV4 = dx paramsV4" "3 \<le> unat (xResolution paramsV4)"
    "0 < lengthP paramsV4"
    "waveFunctionBindGroup 0 = waveFunctionBindGroup 0"
    "\<forall>b. length (memory4 b) = unat (xResolution paramsV4)"
    "length (waveFunction staggered4) = unat (xResolution paramsV4)"
    "length (oldWaveFunction staggered4) = unat (xResolution paramsV4)"
    by (simp_all add: paramsV4_def memory4_def staggered4_def dx_def split: buffer.split)
  have e: "binding1 (waveFunctionBindGroup 0) = WaveFunctionBuffer1"
    "binding2 (waveFunctionBindGroup 0) = WaveFunctionBuffer2"
    "memory4 WaveFunctionBuffer1 = [vec2 1 0, vec2 2 1, vec2 4 3, vec2 0 0]"
    "memory4 WaveFunctionBuffer2 = [vec2 0 0, vec2 0 0, vec2 0 0, vec2 0 0]"
    "unat (xResolution paramsV4) = 4"
    "waveFunction staggered4 = [vec2 1 0, vec2 2 1, vec2 4 3, vec2 0 0]"
    "oldWaveFunction staggered4 = [vec2 0 0, vec2 10 20, vec2 0 0, vec2 0 0]"
    by (simp_all add: waveFunctionBindGroup_def paramsV4_def memory4_def staggered4_def)
  from mur_zero_coefficient [OF h, of "vec2 7 7"]
  have "murCoefficient paramsV4 1 = 0"
    and "makeComputePass paramsV4 (vec2 7 7) 1 (waveFunctionBindGroup 0) memory4
           WaveFunctionBuffer2 = [vec2 2 1, vec2 0 0, vec2 0 0, vec2 4 3]"
    and "waveFunction (makeRealComputePass paramsV4 (vec2 7 7) 1 staggered4)
           = [vec2 10 0, vec2 2 1, vec2 4 3, vec2 0 0]"
    by (simp_all add: e)
  with h show ?thesis by simp
qed

section \<open>Properties of the initializer\<close>

lemma PI_pos: "0 < PI"
  by (simp add: PI_def)

lemma magnitude_root:
  assumes "0 < w"
  shows "(2 * (w * w) / (PI * (w * w * (w * w) + 4 * t * t))) powr 0.25
         = root 4 (2 * w\<^sup>2 / (PI * (w ^ 4 + 4 * t\<^sup>2)))"
proof -
  have e: "w * w = w\<^sup>2" "w * w * (w * w) = w ^ 4" "4 * t * t = 4 * t\<^sup>2"
    by (simp_all add: power2_eq_square power4_eq_xxxx)
  have "0 < w ^ 4" using assms by simp
  moreover have "0 \<le> 4 * t\<^sup>2" by simp
  ultimately have a: "0 < w ^ 4 + 4 * t\<^sup>2" by linarith
  have "0 < 2 * w\<^sup>2" using assms by simp
  with a PI_pos have "0 \<le> 2 * w\<^sup>2 / (PI * (w ^ 4 + 4 * t\<^sup>2))" by simp
  then have "root 4 (2 * w\<^sup>2 / (PI * (w ^ 4 + 4 * t\<^sup>2)))
             = (2 * w\<^sup>2 / (PI * (w ^ 4 + 4 * t\<^sup>2))) powr (1 / 4)"
    by (simp add: root_powr_inverse)
  then show ?thesis unfolding e by simp
qed

text \<open>
  Claim C4. For a width \<open>w > 0\<close> and a grid point \<open>i < N\<close>, at \<open>x = i L / (N - 1)\<close>,
  \<open>computePsi\<close> returns \<open>(2 w\<^sup>2 / (PI a))\<close> to the power \<open>1/4\<close>, times
  \<open>exp (- b w\<^sup>2 / a)\<close>, times \<open>(cos c, sin c)\<close>, where
  \<open>theta = 0.5 atan (2 t / w\<^sup>2)\<close>, \<open>phi = - theta - k\<^sup>2 t / 2\<close>,
  \<open>a = w\<^sup>4 + 4 t\<^sup>2\<close>, \<open>b = (x - x0 - k t)\<^sup>2\<close> and
  \<open>c = phi + k (x - x0) + 2 t b / a\<close>, for every time \<open>t\<close>; \<open>PI\<close> is the shader's
  constant for the number pi. The initializer stores that value for \<open>t = 0\<close> and
  \<open>t = dt\<close>, the oracle for the requested time.
\<close>

theorem computePsi_closed_form:
  assumes "0 < wp_w wp" and "unat i < unat (xResolution p)"
    and "length buf = unat (xResolution p)"
  shows "computePsi p wp i t =
           (let x = real (unat i) * lengthP p / (real (unat (xResolution p)) - 1);
                theta = 0.5 * arctan (2 * t / (wp_w wp)\<^sup>2);
                phi = - theta - (wp_k wp)\<^sup>2 * t / 2;
                a = (wp_w wp) ^ 4 + 4 * t\<^sup>2;
                b = (x - wp_x0 wp - wp_k wp * t)\<^sup>2;
                c = phi + wp_k wp * (x - wp_x0 wp) + 2 * t * b / a
            in vec2 (root 4 (2 * (wp_w wp)\<^sup>2 / (PI * a)) * exp (- b * (wp_w wp)\<^sup>2 / a) * cos c)
                    (root 4 (2 * (wp_w wp)\<^sup>2 / (PI * a)) * exp (- b * (wp_w wp)\<^sup>2 / a) * sin c)) \<and>
         computeTimeValues p wp t i buf ! unat i = computePsi p wp i t \<and>
         fst (computeInitialValues p wp i (buf, buf)) ! unat i = computePsi p wp i 0 \<and>
         snd (computeInitialValues p wp i (buf, buf)) ! unat i = computePsi p wp i (dt p)"
proof -
  from assms(2) have n0: "xResolution p \<noteq> 0" by auto
  have n: "real (unat (xResolution p - 1)) = real (unat (xResolution p)) - 1"
    using n0 assms(2) by (simp add: unat_pred)
  from assms(2) have g: "\<not> xResolution p \<le> i" by (simp add: word_le_nat_alt)
  have m: "(2 * (wp_w wp * wp_w wp)
              / (PI * (wp_w wp * wp_w wp * (wp_w wp * wp_w wp) + 4 * t * t))) powr 0.25
           = root 4 (2 * (wp_w wp)\<^sup>2 / (PI * ((wp_w wp) ^ 4 + 4 * t\<^sup>2)))"
    by (rule magnitude_root [OF assms(1)])
  have c: "computePsi p wp i t =
           (let x = real (unat i) * lengthP p / (real (unat (xResolution p)) - 1);
                theta = 0.5 * arctan (2 * t / (wp_w wp)\<^sup>2);
                phi = - theta - (wp_k wp)\<^sup>2 * t / 2;
                a = (wp_w wp) ^ 4 + 4 * t\<^sup>2;
                b = (x - wp_x0 wp - wp_k wp * t)\<^sup>2;
                c = phi + wp_k wp * (x - wp_x0 wp) + 2 * t * b / a
            in vec2 (root 4 (2 * (wp_w wp)\<^sup>2 / (PI * a)) * exp (- b * (wp_w wp)\<^sup>2 / a) * cos c)
                    (root 4 (2 * (wp_w wp)\<^sup>2 / (PI * a)) * exp (- b * (wp_w wp)\<^sup>2 / a) * sin c))"
    unfolding computePsi_def Let_def smul_def n m
    by (simp add: power2_eq_square power4_eq_xxxx algebra_simps)
  have k: "computeTimeValues p wp t i buf ! unat i = computePsi p wp i t"
    "fst (computeInitialValues p wp i (buf, buf)) ! unat i = computePsi p wp i 0"
    "snd (computeInitialValues p wp i (buf, buf)) ! unat i = computePsi p wp i (dt p)"
    using g assms(2,3)
    by (simp_all add: computeTimeValues_def computeInitialValues_def store_def)
  from c k show ?thesis by blast
qed


theorem computePsi_closed_form_witness:
  "0 < wp_w wavePacket0 \<and> unat (0 :: u32) < unat (xResolution params4) \<and>
   length (replicate 4 (vec2 0 0)) = unat (xResolution params4) \<and>
   computePsi params4 wavePacket0 0 0 = vec2 (root 4 (2 / PI)) 0 \<and>
   computeTimeValues params4 wavePacket0 0 0 (replicate 4 (vec2 0 0)) ! unat (0 :: u32)
     = vec2 (root 4 (2 / PI)) 0"
proof -
  have h: "0 < wp_w wavePacket0" "unat (0 :: u32) < unat (xResolution params4)"
    "length (replicate 4 (vec2 0 0)) = unat (xResolution params4)"
    by (simp_all add: wavePacket0_def params4_def)
  have e: "wp_w wavePacket0 = 1" "wp_x0 wavePacket0 = 0" "wp_k wavePacket0 = 0"
    by (simp_all add: wavePacket0_def)
  from computePsi_closed_form [OF h, of 0]
  have "computePsi params4 wavePacket0 0 0 = vec2 (root 4 (2 / PI)) 0"
    and "computeTimeValues params4 wavePacket0 0 0 (replicate 4 (vec2 0 0)) ! unat (0 :: u32)
           = vec2 (root 4 (2 / PI)) 0"
    by (simp_all add: e Let_def)
  with h show ?thesis by simp
qed

section \<open>Properties of the diagnostics\<close>

lemma sum_1_2: "(\<Sum>i = 1..<(2::nat). f i) = (f 1 :: real)"
  by (simp add: numeral_2_eq_2)

lemma sum_0_2: "(\<Sum>i = 0..<(2::nat). f i) = (f 0 + f 1 :: real)"
  by (simp add: numeral_2_eq_2)

lemma modulus2_point:
  assumes "2 * j + 1 < length a"
  shows "modulus2 a (2 * int j) = Some (psi2 a j)"
proof -
  have "nat (2 * int j) = 2 * j" and "nat (2 * int j + 1) = 2 * j + 1" by simp_all
  with assms show ?thesis
    by (simp add: modulus2_def element_def psi2_def power2_eq_square)
qed

lemma modulus2_next_point:
  assumes "2 * j + 3 < length a"
  shows "modulus2 a (2 * int j + 2) = Some (psi2 a (j + 1))"
proof -
  have "2 * int j + 2 = 2 * int (j + 1)" by simp
  moreover from assms have "2 * (j + 1) + 1 < length a" by simp
  ultimately show ?thesis using modulus2_point [of "j + 1" a] by (simp add: add.commute)
qed

lemma integrate_loop_sum:
  assumes "length a = 2 * n" and "i \<le> n - 1" and "1 \<le> n"
  shows "integrate_loop a (real n - 1) h i (Some s)
           = Some (s + (\<Sum>j = i..<n - 1. (psi2 a j + psi2 a (j + 1)) / 2 * h))"
  using assms(2)
proof (induction "n - 1 - i" arbitrary: i s)
  case 0
  then have "i = n - 1" by simp
  then have "\<not> real i < real n - 1" using assms(3) by simp
  then show ?case using \<open>i = n - 1\<close>
    by (subst integrate_loop.simps) simp
next
  case (Suc k)
  then have lt: "i < n - 1" by simp
  then have c: "real i < real n - 1" by linarith
  from lt assms(1) have m: "modulus2 a (2 * int i) = Some (psi2 a i)"
    "modulus2 a (2 * int i + 2) = Some (psi2 a (i + 1))"
    by (simp_all add: modulus2_point modulus2_next_point)
  from Suc(2) have k: "k = n - 1 - (i + 1)" by simp
  from lt have le: "i + 1 \<le> n - 1" by simp
  have "integrate_loop a (real n - 1) h i (Some s)
          = integrate_loop a (real n - 1) h (i + 1)
              (Some (s + (psi2 a i + psi2 a (i + 1)) / 2 * h))"
    using c by (subst integrate_loop.simps) (simp add: m accumulate_def)
  also have "\<dots> = Some (s + (psi2 a i + psi2 a (i + 1)) / 2 * h
                       + (\<Sum>j = i + 1..<n - 1. (psi2 a j + psi2 a (j + 1)) / 2 * h))"
    by (rule Suc(1) [OF k le])
  also have "\<dots> = Some (s + (\<Sum>j = i..<n - 1. (psi2 a j + psi2 a (j + 1)) / 2 * h))"
    using lt by (simp add: sum.atLeast_Suc_lessThan)
  finally show ?case .
qed

lemma integrateWaveFunction_trapezoid:
  assumes "length a = 2 * n" and "2 \<le> n"
  shows "integrateWaveFunction a len = Some (trapezoid_rule a len)"
proof -
  from assms have d: "length a div 2 = n" and r: "real (length a) / 2 - 1 = real n - 1"
    by simp_all
  have "integrateWaveFunction a len
          = integrate_loop a (real n - 1) (len / (real n - 1)) 0 (Some 0)"
    by (simp add: integrateWaveFunction_def Let_def r)
  also have "\<dots> = Some (0 + (\<Sum>j = 0..<n - 1.
                 (psi2 a j + psi2 a (j + 1)) / 2 * (len / (real n - 1))))"
    using assms by (intro integrate_loop_sum) simp_all
  also have "\<dots> = Some (trapezoid_rule a len)"
    by (simp add: trapezoid_rule_def Let_def d sum_distrib_left mult.commute)
  finally show ?thesis .
qed

lemma simpson_coefficient: "real ((i mod 2 + 1) * 2) = (if odd i then 4 else 2)"
  by (cases "odd i") (simp_all add: odd_iff_mod_2_eq_one)

lemma simpson_loop_sum:
  assumes "length a = 2 * n" and "i \<le> n - 2" and "2 \<le> n"
  shows "simpson_loop a (real n) i (Some s)
           = Some (s + (\<Sum>j = i..<n - 2. (if odd j then 4 else 2) * psi2 a j))"
  using assms(2)
proof (induction "n - 2 - i" arbitrary: i s)
  case 0
  then have "i = n - 2" by simp
  then have "\<not> real i < real n - 2" using assms(3) by simp
  then show ?case using \<open>i = n - 2\<close>
    by (subst simpson_loop.simps) simp
next
  case (Suc k)
  then have lt: "i < n - 2" by simp
  then have c: "real i < real n - 2" by linarith
  from lt assms(1) have m: "modulus2 a (2 * int i) = Some (psi2 a i)"
    by (simp add: modulus2_point)
  from Suc(2) have k: "k = n - 2 - (i + 1)" by simp
  from lt have le: "i + 1 \<le> n - 2" by simp
  have "simpson_loop a (real n) i (Some s)
          = simpson_loop a (real n) (i + 1)
              (Some (s + (if odd i then 4 else 2) * psi2 a i))"
    using c
    by (subst simpson_loop.simps) (simp only: simpson_coefficient, simp add: m accumulate_def)
  also have "\<dots> = Some (s + (if odd i then 4 else 2) * psi2 a i
                       + (\<Sum>j = i + 1..<n - 2. (if odd j then 4 else 2) * psi2 a j))"
    by (rule Suc(1) [OF k le])
  also have "\<dots> = Some (s + (\<Sum>j = i..<n - 2. (if odd j then 4 else 2) * psi2 a j))"
    using lt by (simp add: sum.atLeast_Suc_lessThan)
  finally show ?case .
qed

lemma simpson_value:
  assumes "length a = 2 * n" and "3 \<le> n"
  shows "simpson a len
           = Some (len / (3 * (real n - 1))
                   * (psi2 a 0 + (\<Sum>j = 1..<n - 2. (if odd j then 4 else 2) * psi2 a j)
                      + psi2 a (n - 1)))"
proof -
  from assms have r: "real (length a) / 2 = real n" by simp
  have f: "\<lfloor>2 * (real n - 1)\<rfloor> = 2 * int (n - 1)"
  proof -
    from assms(2) have "2 * (real n - 1) = real_of_int (2 * int (n - 1))" by simp
    then show ?thesis by (simp only: floor_of_int)
  qed
  from assms have m0: "modulus2 a 0 = Some (psi2 a 0)"
    using modulus2_point [of 0 a] by simp
  from assms have ml: "modulus2 a (2 * int (n - 1)) = Some (psi2 a (n - 1))"
    by (intro modulus2_point) simp
  have l: "simpson_loop a (real n) 1 (Some (psi2 a 0))
             = Some (psi2 a 0 + (\<Sum>j = 1..<n - 2. (if odd j then 4 else 2) * psi2 a j))"
    using assms by (intro simpson_loop_sum) simp_all
  show ?thesis
    unfolding simpson_def Let_def r f m0 l ml
    by (simp add: accumulate_def)
qed

lemma simpson_misses_term:
  assumes "length a = 2 * n" and "3 \<le> n"
  shows "simpson a len
           = Some (simpson_rule a len
                   - len / (real n - 1) / 3 * ((if odd (n - 2) then 4 else 2) * psi2 a (n - 2)))"
proof -
  from assms have d: "length a div 2 = n" by simp
  from assms(2) obtain k where n: "n = k + 3" by (metis add.commute le_Suc_ex)
  have "(\<Sum>j = 1..<k + 2. (if odd j then 4 else 2) * psi2 a j)
             = (\<Sum>j = 1..<k + 1. (if odd j then 4 else 2) * psi2 a j)
               + (if odd (k + 1) then 4 else 2) * psi2 a (k + 1)"
    using sum.atLeastLessThan_Suc [of 1 "k + 1" "\<lambda>j. (if odd j then 4 else 2) * psi2 a j"]
    by simp
  moreover have "n - 1 = k + 2" "n - 2 = k + 1" using n by simp_all
  ultimately have "(\<Sum>j = 1..<n - 1. (if odd j then 4 else 2) * psi2 a j)
             = (\<Sum>j = 1..<n - 2. (if odd j then 4 else 2) * psi2 a j)
               + (if odd (n - 2) then 4 else 2) * psi2 a (n - 2)"
    by simp
  then show ?thesis
    unfolding simpson_value [OF assms] simpson_rule_def Let_def d
    by (simp add: algebra_simps)
qed

text \<open>
  Claim C9 at its failing input, three samples \<open>(0, 1, 0)\<close> over a length of 2. The loop
  of \<open>simpson\<close> stops before the last interior point (lemma \<open>simpson_misses_term\<close>), so
  it returns 0 where Simpson's rule gives \<open>4/3\<close>. \<open>integrateWaveFunction\<close> is the
  trapezoidal rule there, as on every snapshot (lemma \<open>integrateWaveFunction_trapezoid\<close>).
\<close>

theorem simpson_skips_point:
  "simpson snapshot3 2 = Some 0 \<and> simpson_rule snapshot3 2 = 4 / 3 \<and>
   integrateWaveFunction snapshot3 2 = Some 1 \<and> trapezoid_rule snapshot3 2 = 1"
proof -
  have s: "simpson snapshot3 2 = Some 0"
    by (simp add: simpson_def snapshot3_def Let_def simpson_loop.simps modulus2_def
        element_def accumulate_def)
  have r: "simpson_rule snapshot3 2 = 4 / 3"
    by (simp add: simpson_rule_def snapshot3_def Let_def psi2_def sum_1_2)
  have i: "integrateWaveFunction snapshot3 2 = Some 1"
    by (simp add: integrateWaveFunction_def snapshot3_def Let_def integrate_loop.simps
        modulus2_def element_def accumulate_def)
  have t: "trapezoid_rule snapshot3 2 = 1"
    by (simp add: trapezoid_rule_def snapshot3_def Let_def psi2_def sum_0_2)
  from s r i t show ?thesis by simp
qed

end
